theory Spec2Isabelle
  imports Complex_Main "HOL-Library.Word"
begin

section \<open>The health checker of the operator (pkg/healthchecker/healthchecker.go)\<close>

text \<open>
  Go strings are byte sequences; they are modelled as \<^typ>\<open>string\<close> (lists of 8-bit
  characters). The logger calls of the source have no effect on any result and are left out.
\<close>

subsection \<open>The functions of Go's strings, strconv and fmt packages that the code calls\<close>

text \<open>\<^verbatim>\<open>strings.HasPrefix(s, prefix)\<close>:
  \<^verbatim>\<open>len(s) >= len(prefix) && s[:len(prefix)] == prefix\<close>.\<close>

definition HasPrefix :: "string \<Rightarrow> string \<Rightarrow> bool" where
  "HasPrefix s pre = (length pre \<le> length s \<and> take (length pre) s = pre)"

text \<open>\<^verbatim>\<open>strings.HasSuffix\<close> and \<^verbatim>\<open>strings.TrimSuffix\<close>: the suffix is removed
  once, when it is there.\<close>

definition HasSuffix :: "string \<Rightarrow> string \<Rightarrow> bool" where
  "HasSuffix s suf = (length suf \<le> length s \<and> drop (length s - length suf) s = suf)"

definition TrimSuffix :: "string \<Rightarrow> string \<Rightarrow> string" where
  "TrimSuffix s suf = (if HasSuffix s suf then take (length s - length suf) s else s)"

text \<open>\<^verbatim>\<open>strings.ContainsAny(s, chars)\<close>: some character of \<open>chars\<close> occurs in
  \<open>s\<close>. (For the ASCII \<open>chars\<close> of this program, Go's test on code points is the test
  on bytes.)\<close>

definition ContainsAny :: "string \<Rightarrow> string \<Rightarrow> bool" where
  "ContainsAny s chars = list_ex (\<lambda>c. c \<in> set chars) s"

text \<open>\<^verbatim>\<open>strings.Contains(s, substr)\<close>, which the source does not call: \<open>substr\<close>
  occurs in \<open>s\<close> as a contiguous block.\<close>

fun Contains :: "string \<Rightarrow> string \<Rightarrow> bool" where
  "Contains [] substr = (substr = [])"
| "Contains (c # cs) substr = (HasPrefix (c # cs) substr \<or> Contains cs substr)"

text \<open>\<^verbatim>\<open>strings.Split(s, sep)\<close> for a separator of one byte, here \<open>sep\<close>: the
  fields between the occurrences of the separator, every occurrence counted, so that the
  result has one field more than \<open>s\<close> has separators and is never empty (the
  second case of the \<open>case\<close> is never taken).\<close>

fun Split :: "string \<Rightarrow> char \<Rightarrow> string list" where
  "Split [] sep = [[]]"
| "Split (c # cs) sep =
     (if c = sep then [] # Split cs sep
      else (case Split cs sep of
              field # fields \<Rightarrow> (c # field) # fields
            | [] \<Rightarrow> [[c]]))"

text \<open>Decimal numerals, as \<^verbatim>\<open>strconv.FormatInt(i, 10)\<close> and the verb
  \<^verbatim>\<open>%v\<close> of \<^verbatim>\<open>fmt\<close> print an integer.\<close>

fun FormatNat :: "nat \<Rightarrow> string" where
  "FormatNat n =
     (if n < 10 then [''0123456789'' ! n]
      else FormatNat (n div 10) @ [''0123456789'' ! (n mod 10)])"

definition FormatInt :: "int \<Rightarrow> string" where
  "FormatInt i = (if i < 0 then CHR ''-'' # FormatNat (nat (- i)) else FormatNat (nat i))"

text \<open>
  \<^verbatim>\<open>strconv.ParseFloat\<close> is a parameter of the model: a function from the text to
  either the reason of a \<^verbatim>\<open>*strconv.NumError\<close> or a 64-bit float. Of the float only
  its comparison with zero is used by the code; a finite float is given by its rational
  value.
\<close>

datatype float64 = Finite rat | PosInf | NegInf | NaN

fun gt_zero :: "float64 \<Rightarrow> bool" where
  "gt_zero (Finite r) = (0 < r)"
| "gt_zero PosInf = True"
| "gt_zero NegInf = False"
| "gt_zero NaN = False"

datatype num_err = ErrSyntax | ErrRange

type_synonym parse_float = "string \<Rightarrow> num_err + float64"

subsection \<open>Errors\<close>

text \<open>
  The values of Go's \<^verbatim>\<open>error\<close> that occur: \<open>Fundamental msg\<close> is what
  \<^verbatim>\<open>errors.New\<close> and \<^verbatim>\<open>errors.Errorf\<close> of github.com/pkg/errors build,
  \<open>Wrapf e msg\<close> is \<^verbatim>\<open>errors.Wrapf(e, msg)\<close> for a non-nil \<open>e\<close>,
  \<open>NumError num reason\<close> is the \<^verbatim>\<open>*strconv.NumError\<close> of \<^verbatim>\<open>ParseFloat\<close>,
  \<open>External msg\<close> is an error made by a collaborator outside this package, and
  \<open>CurlNotFoundErr e\<close> is the struct of the source. A nil error is \<open>None\<close>.
\<close>

datatype error =
    Fundamental string
  | Wrapf error string
  | NumError string num_err
  | External string
  | CurlNotFoundErr error

text \<open>The type assertion \<^verbatim>\<open>_, ok := err.(CurlNotFoundErr)\<close>: it looks at the dynamic
  type of \<open>err\<close> itself, not at what \<open>err\<close> wraps, and is false of nil.\<close>

fun isCurlNotFoundErr :: "error option \<Rightarrow> bool" where
  "isCurlNotFoundErr (Some (CurlNotFoundErr e)) = True"
| "isCurlNotFoundErr _ = False"

subsection \<open>Constants\<close>

definition underreplicatedmetric :: string where
  "underreplicatedmetric = ''ranges_underreplicated{store=''"

definition curlnotfounderr :: string where
  "curlnotfounderr = ''/bin/bash: curl: command not found''"

text \<open>Durations are in nanoseconds, as \<^verbatim>\<open>time.Duration\<close> is.\<close>

definition Second :: nat where
  "Second = 1000000000"

definition Minute :: nat where
  "Minute = 60 * Second"

definition sleepBetweenUpdates :: nat where
  "sleepBetweenUpdates = 1 * Minute"

subsection \<open>extractMetric\<close>

text \<open>The message that lines 187 and 193 of the source both format. The slice that
  \<^verbatim>\<open>strings.Split\<close> returns is never nil, so that the test of line 192 is the test of
  its length; with two fields or more, \<^verbatim>\<open>out[1]\<close> is in range.\<close>

definition incorrect_format :: "string \<Rightarrow> string \<Rightarrow> string" where
  "incorrect_format output underepmetric =
     ''incorrect format of the output: actual='' @ [CHR 0x27] @ output @ [CHR 0x27]
       @ '' expected to start with='' @ underepmetric"

definition extractMetric :: "parse_float \<Rightarrow> string \<Rightarrow> string \<Rightarrow> 32 word \<Rightarrow> int \<times> error option" where
  "extractMetric parse output underepmetric partition' =
     (if output = [] then
        (- 1, Some (Fundamental (''non existing ranges_underreplicated metric for partition ''
                                  @ FormatInt (sint partition'))))
      else if \<not> HasPrefix output underepmetric then
        (- 1, Some (Fundamental (incorrect_format output underepmetric)))
      else
        (let out = Split output CHR '' '' in
         if length out \<le> 1 then
           (- 1, Some (Fundamental (incorrect_format output underepmetric)))
         else
           (let metric = TrimSuffix (out ! 1) [CHR 0x0A] in
            case parse metric of
              Inl reason \<Rightarrow> (- 1, Some (NumError metric reason))
            | Inr i \<Rightarrow>
                if gt_zero i then
                  (- 1, Some (Fundamental (''under replica is not zero for partition ''
                                            @ FormatInt (sint partition'))))
                else (0, None))))"

subsection \<open>The world outside: remote execution and time\<close>

text \<open>
  What a probe does to the outside is a sequence of events, oldest first: the commands it
  runs in pods and the times it sleeps. The state of the model is this sequence. Running a
  command takes no time in the model: the clock \<open>now\<close> advances by sleeping only.
\<close>

datatype event = Exec string "string list" | Sleep nat

type_synonym world = "event list"

fun dur :: "event \<Rightarrow> nat" where
  "dur (Sleep d) = d"
| "dur (Exec podname cmd) = 0"

definition now :: "world \<Rightarrow> nat" where
  "now w = sum_list (map dur w)"

definition timeSleep :: "nat \<Rightarrow> world \<Rightarrow> world" where
  "timeSleep d w = w @ [Sleep d]"

text \<open>
  The struct of the source holds a client set, a scheme, a cluster and a configuration; the
  model holds what the code reads from them and the collaborators it reaches through them.
  \<open>ExecInPod\<close> is \<^verbatim>\<open>kube.ExecInPod\<close>: given the events so far, the namespace, the
  pod, the container and the command, it answers with \<^verbatim>\<open>(output, stderr, err)\<close>.
  \<open>HTTPPort\<close> and the replicas of the stateful set are the targets of the pointers that
  the source dereferences. \<open>DbContainerName\<close> is \<^verbatim>\<open>resource.DbContainerName\<close>.
  \<open>GetStatefulSet\<close> is the read of the stateful set through the client set, which
  answers with an error or with the stateful set, of which the code uses the replicas;
  \<open>HandleStsError\<close> is \<^verbatim>\<open>kube.HandleStsError\<close> and
  \<open>WaitUntilStatefulSetIsReadyToServe\<close> is the function of this name of the package
  \<^verbatim>\<open>scale\<close>. \<open>ParseFloat\<close> is \<^verbatim>\<open>strconv.ParseFloat\<close>, which reads the bit
  size 1 that the source gives it as 64.
\<close>

record HealthCheckerImpl =
  StatefulSetName :: string
  Namespace :: string
  HTTPPort :: "32 word"
  DbContainerName :: string
  ExecInPod :: "world \<Rightarrow> string \<Rightarrow> string \<Rightarrow> string \<Rightarrow> string list \<Rightarrow> string \<times> string \<times> error option"
  ParseFloat :: parse_float
  GetStatefulSet :: "world \<Rightarrow> string \<Rightarrow> string \<Rightarrow> error + 32 word"
  HandleStsError :: "error \<Rightarrow> string \<Rightarrow> string \<Rightarrow> error option"
  WaitUntilStatefulSetIsReadyToServe :: "world \<Rightarrow> string \<Rightarrow> string \<Rightarrow> 32 word \<Rightarrow> error option"

subsection \<open>checkUnderReplicatedMetric\<close>

text \<open>\<^verbatim>\<open>fmt.Sprintf(cmdunderreplicted, podname, stsname, port)\<close>.\<close>

definition cmdunderreplicted :: "string \<Rightarrow> string \<Rightarrow> string \<Rightarrow> string" where
  "cmdunderreplicted podname stsname port =
     ''curl -ks https://'' @ podname @ ''.'' @ stsname @ '':'' @ port
       @ ''/_status/vars | grep '' @ [CHR 0x27] @ ''ranges_underreplicated{'' @ [CHR 0x27]"

definition exec_failed :: "string \<Rightarrow> string \<Rightarrow> string" where
  "exec_failed podname stderr =
     ''exec in pod '' @ podname @ '' failed with stderror: '' @ stderr @ '' ''"

definition checkUnderReplicatedMetric ::
  "HealthCheckerImpl \<Rightarrow> string \<Rightarrow> string \<Rightarrow> string \<Rightarrow> string \<Rightarrow> 32 word \<Rightarrow> world
     \<Rightarrow> error option \<times> world" where
  "checkUnderReplicatedMetric hc logSuffix podname stsname stsnamespace partition' w =
     (let port = FormatInt (sint (HTTPPort hc));
          cmd = [''/bin/bash'', ''-c'', cmdunderreplicted podname stsname port];
          (output, stderr, err) = ExecInPod hc w (Namespace hc) podname (DbContainerName hc) cmd;
          w' = w @ [Exec podname cmd]
      in
        if stderr \<noteq> [] then
          (if ContainsAny stderr curlnotfounderr then
             (Some (CurlNotFoundErr (Fundamental (exec_failed podname stderr))), w')
           else (Some (Fundamental (exec_failed podname stderr)), w'))
        else
          (case err of
             Some e \<Rightarrow> (Some (Wrapf e (''health check probe for pod '' @ podname @ '' failed'')), w')
           | None \<Rightarrow>
               (snd (extractMetric (ParseFloat hc) output underreplicatedmetric partition'), w')))"

subsection \<open>checkUnderReplicatedMetricAllPods\<close>

text \<open>The loop \<^verbatim>\<open>for partition := replicas - 1; partition >= 0; partition--\<close> over
  \<^verbatim>\<open>int32\<close>, from the current value of \<open>partition\<close> on.\<close>

function checkLoop ::
  "HealthCheckerImpl \<Rightarrow> string \<Rightarrow> string \<Rightarrow> string \<Rightarrow> 32 word \<Rightarrow> world \<Rightarrow> error option \<times> world" where
  "checkLoop hc logSuffix stsname stsnamespace partition' w =
     (if 0 \<le> sint partition' then
        (let podName = stsname @ ''-'' @ FormatInt (sint partition') in
         case checkUnderReplicatedMetric hc logSuffix podName stsname stsnamespace partition' w of
           (Some err, w') \<Rightarrow> (Some err, w')
         | (None, w') \<Rightarrow> checkLoop hc logSuffix stsname stsnamespace (partition' - 1) w')
      else (None, w))"
  by pat_completeness auto

termination
proof (relation "measure (\<lambda>(hc, logSuffix, stsname, stsnamespace, p, w). nat (sint p + 1))")
  show "wf (measure (\<lambda>(hc, logSuffix, stsname, stsnamespace, p, w). nat (sint (p :: 32 word) + 1)))"
    by simp
next
  fix hc :: HealthCheckerImpl and logSuffix stsname stsnamespace :: string
    and p :: "32 word" and w w' :: world
  assume h: "0 \<le> sint p"
  have "sint p < 2 ^ 31" using sint_lt [of p] by simp
  then have "signed_take_bit 31 (sint p - 1) = sint p - 1"
    using h by (simp add: signed_take_bit_int_eq_self)
  then have "sint (p - 1) = sint p - 1" by (simp add: sint_word_ariths)
  then show "((hc, logSuffix, stsname, stsnamespace, p - 1, w'), (hc, logSuffix, stsname, stsnamespace, p, w))
      \<in> measure (\<lambda>(hc, logSuffix, stsname, stsnamespace, p, w). nat (sint p + 1))"
    using h by simp
qed

declare checkLoop.simps [simp del]

definition checkUnderReplicatedMetricAllPods ::
  "HealthCheckerImpl \<Rightarrow> string \<Rightarrow> string \<Rightarrow> string \<Rightarrow> 32 word \<Rightarrow> world \<Rightarrow> error option \<times> world" where
  "checkUnderReplicatedMetricAllPods hc logSuffix stsname stsnamespace replicas w =
     checkLoop hc logSuffix stsname stsnamespace (replicas - 1) w"

text \<open>
  The vocabulary of the statements about the sweep. \<open>exec_event\<close> is the event of the
  command that \<open>checkUnderReplicatedMetric\<close> runs in a pod, \<open>podName stsname j\<close> is the
  name of the pod of replica \<open>j\<close>, and \<open>pod_events hc stsname k n\<close> are the events of the
  checks of the replicas \<open>n - 1\<close> down to \<open>k\<close>, in this order. \<open>pod_outcome \<dots> w n j\<close> is
  what the check of replica \<open>j\<close> returns when it is run after the checks of the replicas
  \<open>n - 1\<close> down to \<open>j + 1\<close> of a sweep that started in \<open>w\<close>.
\<close>

definition exec_event :: "HealthCheckerImpl \<Rightarrow> string \<Rightarrow> string \<Rightarrow> event" where
  "exec_event hc stsname podname =
     Exec podname [''/bin/bash'', ''-c'',
                   cmdunderreplicted podname stsname (FormatInt (sint (HTTPPort hc)))]"

definition podName :: "string \<Rightarrow> nat \<Rightarrow> string" where
  "podName stsname j = stsname @ ''-'' @ FormatInt (int j)"

definition pod_events :: "HealthCheckerImpl \<Rightarrow> string \<Rightarrow> nat \<Rightarrow> nat \<Rightarrow> event list" where
  "pod_events hc stsname k n = map (\<lambda>j. exec_event hc stsname (podName stsname j)) (rev [k..<n])"

definition pod_outcome ::
  "HealthCheckerImpl \<Rightarrow> string \<Rightarrow> string \<Rightarrow> string \<Rightarrow> world \<Rightarrow> nat \<Rightarrow> nat \<Rightarrow> error option" where
  "pod_outcome hc logSuffix stsname stsnamespace w n j =
     fst (checkUnderReplicatedMetric hc logSuffix (podName stsname j) stsname stsnamespace
            (of_nat j) (w @ pod_events hc stsname (Suc j) n))"

subsection \<open>The backoff library\<close>

text \<open>
  Modelled from the spec: \<^verbatim>\<open>backoff.NewExponentialBackOff\<close> and \<^verbatim>\<open>backoff.Retry\<close> of
  github.com/cenkalti/backoff, which are not in the source file. The policy has an initial
  interval that grows multiplicatively up to a capped maximum interval, and a budget of
  wall-clock time counted from the first invocation. The operation is run; when it returns
  nil, nil is returned at once; when it fails and the budget is exhausted, its error is
  returned; otherwise the current interval is slept and the operation is run again. The
  spec leaves the initial interval, the multiplier and the defaults of the two fields that
  the source overwrites open: they are the ones the library documents (500 ms, 1.5, 60 s,
  15 min).
\<close>

record ExponentialBackOff =
  InitialInterval :: nat
  MultiplierNum :: nat
  MultiplierDen :: nat
  MaxInterval :: nat
  MaxElapsedTime :: nat

definition NewExponentialBackOff :: ExponentialBackOff where
  "NewExponentialBackOff =
     \<lparr>InitialInterval = 500000000, MultiplierNum = 3, MultiplierDen = 2,
      MaxInterval = 60 * Second, MaxElapsedTime = 15 * Minute\<rparr>"

definition incrementCurrentInterval :: "ExponentialBackOff \<Rightarrow> nat \<Rightarrow> nat" where
  "incrementCurrentInterval b currentInterval =
     min (MaxInterval b) (currentInterval * MultiplierNum b div MultiplierDen b)"

partial_function (option) RetryLoop ::
  "(world \<Rightarrow> error option \<times> world) \<Rightarrow> ExponentialBackOff \<Rightarrow> nat \<Rightarrow> nat \<Rightarrow> world
     \<Rightarrow> (error option \<times> world) option" where
  "RetryLoop operation b startTime currentInterval w =
     (case operation w of
        (None, w') \<Rightarrow> Some (None, w')
      | (Some err, w') \<Rightarrow>
          if MaxElapsedTime b < now w' - startTime then Some (Some err, w')
          else RetryLoop operation b startTime (incrementCurrentInterval b currentInterval)
                 (timeSleep currentInterval w'))"

definition Retry ::
  "(world \<Rightarrow> error option \<times> world) \<Rightarrow> ExponentialBackOff \<Rightarrow> world \<Rightarrow> (error option \<times> world) option" where
  "Retry operation b w = RetryLoop operation b (now w) (InitialInterval b) w"

subsection \<open>waitUntilUnderReplicatedMetricIsZero\<close>

definition waitUntilUnderReplicatedMetricIsZero ::
  "HealthCheckerImpl \<Rightarrow> string \<Rightarrow> string \<Rightarrow> string \<Rightarrow> 32 word \<Rightarrow> world
     \<Rightarrow> (error option \<times> world) option" where
  "waitUntilUnderReplicatedMetricIsZero hc logSuffix stsname stsnamespace replicas w =
     (let f = checkUnderReplicatedMetricAllPods hc logSuffix stsname stsnamespace replicas;
          b = NewExponentialBackOff\<lparr>MaxElapsedTime := 3 * Minute, MaxInterval := 10 * Second\<rparr>
      in
        case Retry f b w of
          None \<Rightarrow> None
        | Some (Some err, w') \<Rightarrow>
            Some (Some (Wrapf err (''replicas check probe failed for cluster '' @ logSuffix)), w')
        | Some (None, w') \<Rightarrow> Some (None, w'))"

subsection \<open>Probe\<close>

text \<open>The result is \<open>None\<close> when the call does not return, and otherwise the error
  returned (\<open>None\<close> for nil) with the events up to the return.\<close>

definition Probe ::
  "HealthCheckerImpl \<Rightarrow> string \<Rightarrow> int \<Rightarrow> world \<Rightarrow> (error option \<times> world) option" where
  "Probe hc logSuffix nodeID w =
     (let stsname = StatefulSetName hc;
          stsnamespace = Namespace hc
      in
        case GetStatefulSet hc w stsnamespace stsname of
          Inl err \<Rightarrow> Some (HandleStsError hc err stsname stsnamespace, w)
        | Inr replicas \<Rightarrow>
           (case WaitUntilStatefulSetIsReadyToServe hc w stsnamespace stsname replicas of
              Some err \<Rightarrow>
                Some (Some (Wrapf err (''error rolling update stategy on pod '' @ FormatInt nodeID)), w)
            | None \<Rightarrow>
               (case checkUnderReplicatedMetricAllPods hc logSuffix stsname stsnamespace replicas w of
                  (err0, w1) \<Rightarrow>
                    if isCurlNotFoundErr err0 then Some (None, timeSleep sleepBetweenUpdates w1)
                    else
                     (case waitUntilUnderReplicatedMetricIsZero hc logSuffix stsname stsnamespace
                             replicas w1 of
                        None \<Rightarrow> None
                      | Some (Some err, w2) \<Rightarrow> Some (Some err, w2)
                      | Some (None, w2) \<Rightarrow>
                          if isCurlNotFoundErr None then Some (None, w2)
                          else
                           (case waitUntilUnderReplicatedMetricIsZero hc logSuffix stsname
                                   stsnamespace replicas (timeSleep (22 * Second) w2) of
                              None \<Rightarrow> None
                            | Some (Some err, w3) \<Rightarrow> Some (Some err, w3)
                            | Some (None, w3) \<Rightarrow> Some (None, w3))))))"

subsection \<open>Sample collaborators for the concrete runs\<close>

text \<open>
  A parser for the concrete runs below. It reads an unsigned decimal numeral, with or without
  a fraction (\<^verbatim>\<open>0\<close>, \<^verbatim>\<open>3.5\<close>), to its value and answers every other text with a
  syntax error. On the texts of the concrete runs (\<^verbatim>\<open>0\<close>, \<^verbatim>\<open>3.5\<close> and the empty
  text) this is what \<^verbatim>\<open>strconv.ParseFloat\<close> answers; \<^verbatim>\<open>ParseFloat\<close> reads more texts
  than these.
\<close>

definition digitVal :: "char \<Rightarrow> nat option" where
  "digitVal c = map_of (zip ''0123456789'' [0, 1, 2, 3, 4, 5, 6, 7, 8, 9]) c"

definition decimalValue :: "string \<Rightarrow> nat option" where
  "decimalValue s =
     (if s \<noteq> [] \<and> list_all (\<lambda>c. digitVal c \<noteq> None) s
      then Some (foldl (\<lambda>n c. 10 * n + the (digitVal c)) 0 s) else None)"

definition sampleParseFloat :: parse_float where
  "sampleParseFloat s =
     (let ip = takeWhile (\<lambda>c. c \<noteq> CHR ''.'') s;
          fp = drop 1 (dropWhile (\<lambda>c. c \<noteq> CHR ''.'') s)
      in
        if CHR ''.'' \<in> set s then
          (case (decimalValue ip, decimalValue fp) of
             (Some a, Some b) \<Rightarrow> Inr (Finite (of_nat a + of_nat b / 10 ^ length fp))
           | _ \<Rightarrow> Inl ErrSyntax)
        else
          (case decimalValue ip of
             Some a \<Rightarrow> Inr (Finite (of_nat a))
           | None \<Rightarrow> Inl ErrSyntax))"

text \<open>The line that a pod with store 1 and no under-replicated range prints, and the line
  of a pod that has some.\<close>

definition line_zero :: string where
  "line_zero = ''ranges_underreplicated{store='' @ [CHR 0x22] @ ''1'' @ [CHR 0x22] @ ''} 0'' @ [CHR 0x0A]"

definition line_some :: string where
  "line_some = ''ranges_underreplicated{store='' @ [CHR 0x22] @ ''1'' @ [CHR 0x22] @ ''} 3.5'' @ [CHR 0x0A]"

text \<open>A checker of a stateful set \<^verbatim>\<open>crdb\<close> of three replicas, ready to serve, in which
  every pod prints \<open>line_zero\<close>.\<close>

definition hc_sample :: HealthCheckerImpl where
  "hc_sample =
     \<lparr>StatefulSetName = ''crdb'', Namespace = ''ns'', HTTPPort = 8080, DbContainerName = ''db'',
      ExecInPod = (\<lambda>w namespace podname container cmd. (line_zero, [], None)),
      ParseFloat = sampleParseFloat,
      GetStatefulSet = (\<lambda>w namespace name. Inr 3),
      HandleStsError = (\<lambda>err name namespace. Some err),
      WaitUntilStatefulSetIsReadyToServe = (\<lambda>w namespace name replicas. None)\<rparr>"

text \<open>The same stateful set in four other conditions: every pod answers on its standard
  error that the connection was refused; no pod has curl; every pod has ranges that stay
  under-replicated; and the pod of replica 2 has under-replicated ranges when it is asked
  first and none afterwards, while the other pods have no curl.\<close>

definition hc_refused :: HealthCheckerImpl where
  "hc_refused =
     hc_sample\<lparr>ExecInPod := (\<lambda>w namespace podname container cmd. ([], ''connection refused'', None))\<rparr>"

definition hc_nocurl :: HealthCheckerImpl where
  "hc_nocurl =
     hc_sample\<lparr>ExecInPod := (\<lambda>w namespace podname container cmd. ([], curlnotfounderr, None))\<rparr>"

definition hc_never :: HealthCheckerImpl where
  "hc_never =
     hc_sample\<lparr>ExecInPod := (\<lambda>w namespace podname container cmd. (line_some, [], None))\<rparr>"

definition hc_settling :: HealthCheckerImpl where
  "hc_settling =
     hc_sample\<lparr>ExecInPod := (\<lambda>w namespace podname container cmd.
        if podname = ''crdb-2'' then (if w = [] then (line_some, [], None) else (line_zero, [], None))
        else ([], curlnotfounderr, None))\<rparr>"

text \<open>The same stateful set when every pod has curl and the first command that is run finds
  under-replicated ranges and all later ones find none.\<close>

definition hc_late :: HealthCheckerImpl where
  "hc_late =
     hc_sample\<lparr>ExecInPod := (\<lambda>w namespace podname container cmd.
        if w = [] then (line_some, [], None) else (line_zero, [], None))\<rparr>"

text \<open>The same stateful set when every pod finds no under-replicated range until the probe
  has slept its 22 seconds, and finds some from then on.\<close>

definition hc_evicted :: HealthCheckerImpl where
  "hc_evicted =
     hc_sample\<lparr>ExecInPod := (\<lambda>w namespace podname container cmd.
        if Sleep (22 * Second) \<in> set w then (line_some, [], None) else (line_zero, [], None))\<rparr>"

subsection \<open>Operations that take no time\<close>

text \<open>\<open>sleeps w\<close> are the times slept in \<open>w\<close>, in order. An operation is instant when
  it only adds events and sleeps in none of them. \<open>intervals b cur k\<close> are the first \<open>k\<close>
  intervals of the policy \<open>b\<close> from the current interval \<open>cur\<close> on.\<close>

fun sleeps :: "world \<Rightarrow> nat list" where
  "sleeps [] = []"
| "sleeps (Sleep d # w) = d # sleeps w"
| "sleeps (Exec podname cmd # w) = sleeps w"

definition instant :: "(world \<Rightarrow> error option \<times> world) \<Rightarrow> bool" where
  "instant operation = (\<forall>w. \<exists>evs. snd (operation w) = w @ evs \<and> sleeps evs = [])"

primrec intervals :: "ExponentialBackOff \<Rightarrow> nat \<Rightarrow> nat \<Rightarrow> nat list" where
  "intervals b cur 0 = []"
| "intervals b cur (Suc k) = cur # intervals b (incrementCurrentInterval b cur) k"

text \<open>\<open>attempt operation b i cur w\<close> is the world in which the attempt number \<open>i\<close>
  (counted from 0) of a retry loop starts that is in \<open>w\<close> with the current interval
  \<open>cur\<close>, when every attempt before it has been run and has been followed by the sleep of
  the interval that was current then.\<close>

primrec attempt ::
  "(world \<Rightarrow> error option \<times> world) \<Rightarrow> ExponentialBackOff \<Rightarrow> nat \<Rightarrow> nat \<Rightarrow> world \<Rightarrow> world" where
  "attempt operation b 0 cur w = w"
| "attempt operation b (Suc i) cur w =
     attempt operation b i (incrementCurrentInterval b cur) (timeSleep cur (snd (operation w)))"

subsection \<open>The split that the specification describes\<close>

text \<open>
  The specification has the line split on its first whitespace run: the first token is the
  text before the run and the second token is all the text after the run. The white space
  is that of ASCII.
\<close>

definition isSpace :: "char \<Rightarrow> bool" where
  "isSpace c = (c \<in> set [CHR '' '', CHR 0x09, CHR 0x0A, CHR 0x0B, CHR 0x0C, CHR 0x0D])"

definition split_first_whitespace_run :: "string \<Rightarrow> string list" where
  "split_first_whitespace_run s =
     (let rest = dropWhile (\<lambda>c. \<not> isSpace c) s in
      if rest = [] then [s]
      else [takeWhile (\<lambda>c. \<not> isSpace c) s, dropWhile isSpace rest])"

section \<open>Properties\<close>

subsection \<open>Splitting and trimming\<close>

lemma Split_not_Nil: "Split s sep \<noteq> []"
  by (induction s) (auto split: list.splits)

lemma Split_no_sep: "sep \<notin> set s \<Longrightarrow> Split s sep = [s]"
  by (induction s) auto

lemma Split_at_first_sep: "sep \<notin> set a \<Longrightarrow> Split (a @ sep # r) sep = a # Split r sep"
  by (induction a) auto

lemma hd_Split: "hd (Split s sep) = takeWhile (\<lambda>c. c \<noteq> sep) s"
  by (induction s) (auto simp: Split_not_Nil split: list.splits)

lemma length_Split: "length (Split s sep) = Suc (length (filter (\<lambda>c. c = sep) s))"
  by (induction s) (auto split: list.splits)

lemma length_Split_le_1: "length (Split s sep) \<le> Suc 0 \<longleftrightarrow> sep \<notin> set s"
  by (auto simp: length_Split filter_empty_conv)

lemma Split_second:
  assumes "sep \<in> set s"
  shows "Split s sep ! 1 = takeWhile (\<lambda>c. c \<noteq> sep) (tl (dropWhile (\<lambda>c. c \<noteq> sep) s))"
proof -
  let ?a = "takeWhile (\<lambda>c. c \<noteq> sep) s" and ?r = "dropWhile (\<lambda>c. c \<noteq> sep) s"
  have r: "?r \<noteq> []" using assms by (simp add: dropWhile_eq_Nil_conv)
  then have "hd ?r = sep" using hd_dropWhile [of "\<lambda>c. c \<noteq> sep" s] by auto
  with r have "?r = sep # tl ?r" by (cases ?r) auto
  then have "s = ?a @ sep # tl ?r" using takeWhile_dropWhile_id [of "\<lambda>c. c \<noteq> sep" s] by simp
  moreover have "sep \<notin> set ?a" by (auto dest: set_takeWhileD)
  ultimately have "Split s sep = ?a # Split (tl ?r) sep"
    using Split_at_first_sep [of sep ?a "tl ?r"] by simp
  then have "Split s sep ! 1 = hd (Split (tl ?r) sep)"
    by (simp add: hd_conv_nth Split_not_Nil)
  then show ?thesis by (simp add: hd_Split)
qed

lemma TrimSuffix_append: "TrimSuffix (s @ suf) suf = s"
  by (simp add: TrimSuffix_def HasSuffix_def)

lemma HasPrefix_append: "HasPrefix l pre \<Longrightarrow> HasPrefix (l @ r) pre"
  by (auto simp: HasPrefix_def)

subsection \<open>extractMetric\<close>

lemma sampleParseFloat_zero: "sampleParseFloat ''0'' = Inr (Finite 0)"
  by (simp add: sampleParseFloat_def decimalValue_def digitVal_def)

lemma sampleParseFloat_some: "sampleParseFloat ''3.5'' = Inr (Finite (7 / 2))"
  by (simp add: sampleParseFloat_def decimalValue_def digitVal_def)

lemma sampleParseFloat_empty: "sampleParseFloat [] = Inl ErrSyntax"
  by (simp add: sampleParseFloat_def decimalValue_def digitVal_def)

text \<open>
  Claim C5. A non-empty output that does not start with the expected prefix makes
  \<open>extractMetric\<close> fail with the error of the prefix mismatch, and the number returned
  with it is \<open>-1\<close>, not a metric. The empty output fails with the error of the missing
  metric, whatever the prefix is: the test for it comes first. The two errors differ.
\<close>

theorem extractMetric_prefix_mismatch:
  "(output \<noteq> [] \<and> \<not> HasPrefix output underepmetric \<longrightarrow>
      extractMetric parse output underepmetric p
        = (- 1, Some (Fundamental (incorrect_format output underepmetric))))
   \<and> extractMetric parse [] underepmetric p
        = (- 1, Some (Fundamental (''non existing ranges_underreplicated metric for partition ''
                                    @ FormatInt (sint p))))
   \<and> ''non existing ranges_underreplicated metric for partition '' @ FormatInt (sint p)
        \<noteq> incorrect_format output underepmetric"
  by (simp add: extractMetric_def incorrect_format_def)

theorem extractMetric_prefix_mismatch_witness:
  "''<html>'' \<noteq> [] \<and> \<not> HasPrefix ''<html>'' underreplicatedmetric
   \<and> extractMetric sampleParseFloat ''<html>'' underreplicatedmetric 2
        = (- 1, Some (Fundamental (incorrect_format ''<html>'' underreplicatedmetric)))
   \<and> extractMetric sampleParseFloat [] underreplicatedmetric 2
        = (- 1, Some (Fundamental ''non existing ranges_underreplicated metric for partition 2''))"
  using extractMetric_prefix_mismatch [of "''<html>''" underreplicatedmetric sampleParseFloat 2]
  by (simp add: HasPrefix_def underreplicatedmetric_def FormatInt_def)

text \<open>
  Claim C7. A line that starts with the prefix, has one space and then a text \<open>s\<close> without
  a space, and ends with a line feed, and whose text \<open>s\<close> the parser reads as the float
  \<open>v\<close>: when \<open>v\<close> is greater than zero the result is the error that the replica has not
  converged, and when it is not (zero, negative) the result is \<open>(0, nil)\<close>. The witness
  runs the two lines that the claim names, \<^verbatim>\<open><prefix> 0\<close> and \<^verbatim>\<open><prefix> 3.5\<close>.
\<close>

theorem extractMetric_converged:
  assumes "HasPrefix l underepmetric" and "CHR '' '' \<notin> set l" and "CHR '' '' \<notin> set s"
    and "parse s = Inr v"
  shows "extractMetric parse (l @ '' '' @ s @ [CHR 0x0A]) underepmetric p
           = (if gt_zero v
              then (- 1, Some (Fundamental (''under replica is not zero for partition ''
                                             @ FormatInt (sint p))))
              else (0, None))"
proof -
  have "Split (l @ CHR '' '' # (s @ [CHR 0x0A])) CHR '' '' = [l, s @ [CHR 0x0A]]"
    using assms(2,3) by (simp add: Split_at_first_sep Split_no_sep)
  moreover have "HasPrefix (l @ CHR '' '' # (s @ [CHR 0x0A])) underepmetric"
    using assms(1) by (rule HasPrefix_append)
  ultimately show ?thesis
    using assms(4) by (simp add: extractMetric_def TrimSuffix_append)
qed

theorem extractMetric_converged_witness:
  "HasPrefix underreplicatedmetric underreplicatedmetric
   \<and> CHR '' '' \<notin> set underreplicatedmetric
   \<and> sampleParseFloat ''0'' = Inr (Finite 0) \<and> \<not> gt_zero (Finite 0)
   \<and> sampleParseFloat ''3.5'' = Inr (Finite (7 / 2)) \<and> gt_zero (Finite (7 / 2))
   \<and> extractMetric sampleParseFloat (underreplicatedmetric @ '' '' @ ''0'' @ [CHR 0x0A])
         underreplicatedmetric 1 = (0, None)
   \<and> extractMetric sampleParseFloat (underreplicatedmetric @ '' '' @ ''3.5'' @ [CHR 0x0A])
         underreplicatedmetric 1
       = (- 1, Some (Fundamental ''under replica is not zero for partition 1''))"
proof -
  have pre: "HasPrefix underreplicatedmetric underreplicatedmetric"
    by (simp add: HasPrefix_def)
  have sp: "CHR '' '' \<notin> set underreplicatedmetric"
    by (simp add: underreplicatedmetric_def)
  show ?thesis
    using extractMetric_converged
        [of underreplicatedmetric underreplicatedmetric "''0''" sampleParseFloat "Finite 0" 1]
      extractMetric_converged
        [of underreplicatedmetric underreplicatedmetric "''3.5''" sampleParseFloat "Finite (7 / 2)" 1]
      pre sp sampleParseFloat_zero sampleParseFloat_some
    by (simp add: FormatInt_def)
qed

text \<open>
  Claim C6, as the specification has it, fails. The source splits the output at every
  single space, not at the first whitespace run. On the line with two spaces before the
  value the second field of the source is empty and \<open>extractMetric\<close> fails with the error
  of the parser, although the second token of a split on the first whitespace run is
  \<^verbatim>\<open>0\<close> followed by a line feed, which trimmed is read as zero.
\<close>

theorem extractMetric_whitespace_run_counterexample:
  "extractMetric sampleParseFloat (underreplicatedmetric @ ''  0'' @ [CHR 0x0A])
      underreplicatedmetric 0 = (- 1, Some (NumError [] ErrSyntax))
   \<and> split_first_whitespace_run (underreplicatedmetric @ ''  0'' @ [CHR 0x0A])
       = [underreplicatedmetric, ''0'' @ [CHR 0x0A]]
   \<and> sampleParseFloat
        (TrimSuffix (split_first_whitespace_run (underreplicatedmetric @ ''  0'' @ [CHR 0x0A]) ! 1)
           [CHR 0x0A]) = Inr (Finite 0)"
  by (simp add: extractMetric_def underreplicatedmetric_def HasPrefix_def TrimSuffix_def
      HasSuffix_def split_first_whitespace_run_def isSpace_def sampleParseFloat_empty
      sampleParseFloat_zero)

text \<open>
  Claim C6, amended. For a non-empty output that starts with the prefix, the output is
  split at every single space. Without a space in it, \<open>extractMetric\<close> fails with the
  error of the incorrect format. With one, the second field is the text between the first
  space and the next one (or the end); one trailing line feed is trimmed from it and the
  rest is given to the parser: \<open>extractMetric\<close> fails with the \<open>NumError\<close> of the parser
  when the parser fails, and when the parser succeeds the result is decided by the value
  and is no \<open>NumError\<close>.
\<close>

theorem extractMetric_split_on_spaces:
  assumes "output \<noteq> []" and "HasPrefix output underepmetric"
  shows "(CHR '' '' \<notin> set output \<longrightarrow>
            extractMetric parse output underepmetric p
              = (- 1, Some (Fundamental (incorrect_format output underepmetric))))
       \<and> (CHR '' '' \<in> set output \<longrightarrow>
            (let metric = TrimSuffix (takeWhile (\<lambda>c. c \<noteq> CHR '' '')
                                        (tl (dropWhile (\<lambda>c. c \<noteq> CHR '' '') output))) [CHR 0x0A]
             in (\<forall>reason. parse metric = Inl reason \<longrightarrow>
                    extractMetric parse output underepmetric p
                      = (- 1, Some (NumError metric reason)))
              \<and> (\<forall>v. parse metric = Inr v \<longrightarrow>
                    extractMetric parse output underepmetric p
                      = (if gt_zero v
                         then (- 1, Some (Fundamental (''under replica is not zero for partition ''
                                                        @ FormatInt (sint p))))
                         else (0, None)))))"
proof (intro conjI impI)
  assume "CHR '' '' \<notin> set output"
  then have "length (Split output CHR '' '') \<le> 1" using length_Split_le_1 [of "output"] by simp
  then show "extractMetric parse output underepmetric p
               = (- 1, Some (Fundamental (incorrect_format output underepmetric)))"
    using assms by (simp add: extractMetric_def)
next
  assume sp: "CHR '' '' \<in> set output"
  then have len: "\<not> length (Split output CHR '' '') \<le> 1"
    using length_Split_le_1 [of "output"] by simp
  show "let metric = TrimSuffix (takeWhile (\<lambda>c. c \<noteq> CHR '' '')
                                    (tl (dropWhile (\<lambda>c. c \<noteq> CHR '' '') output))) [CHR 0x0A]
        in (\<forall>reason. parse metric = Inl reason \<longrightarrow>
               extractMetric parse output underepmetric p
                 = (- 1, Some (NumError metric reason)))
         \<and> (\<forall>v. parse metric = Inr v \<longrightarrow>
               extractMetric parse output underepmetric p
                 = (if gt_zero v
                    then (- 1, Some (Fundamental (''under replica is not zero for partition ''
                                                   @ FormatInt (sint p))))
                    else (0, None)))"
    using assms len Split_second [OF sp] by (simp add: extractMetric_def Let_def)
qed

theorem extractMetric_split_on_spaces_witness:
  "underreplicatedmetric @ ''  0'' @ [CHR 0x0A] \<noteq> []
   \<and> HasPrefix (underreplicatedmetric @ ''  0'' @ [CHR 0x0A]) underreplicatedmetric
   \<and> CHR '' '' \<in> set (underreplicatedmetric @ ''  0'' @ [CHR 0x0A])
   \<and> sampleParseFloat [] = Inl ErrSyntax
   \<and> extractMetric sampleParseFloat (underreplicatedmetric @ ''  0'' @ [CHR 0x0A])
        underreplicatedmetric 0 = (- 1, Some (NumError [] ErrSyntax))
   \<and> ''<html>'' \<noteq> [] \<and> HasPrefix ''<html>'' ''<'' \<and> CHR '' '' \<notin> set ''<html>''
   \<and> extractMetric sampleParseFloat ''<html>'' ''<'' 0
        = (- 1, Some (Fundamental (incorrect_format ''<html>'' ''<'')))"
proof -
  have ne: "underreplicatedmetric @ ''  0'' @ [CHR 0x0A] \<noteq> []" by simp
  have pre: "HasPrefix (underreplicatedmetric @ ''  0'' @ [CHR 0x0A]) underreplicatedmetric"
    by (simp add: HasPrefix_def)
  have ne': "''<html>'' \<noteq> []" by simp
  have pre': "HasPrefix ''<html>'' ''<''" by (simp add: HasPrefix_def)
  show ?thesis
    using extractMetric_split_on_spaces [OF ne pre, of sampleParseFloat 0]
      extractMetric_split_on_spaces [OF ne' pre', of sampleParseFloat 0]
      pre pre' sampleParseFloat_empty
    by (simp add: underreplicatedmetric_def TrimSuffix_def HasSuffix_def)
qed

subsection \<open>The sample pods\<close>

lemma extract_line_zero: "extractMetric sampleParseFloat line_zero underreplicatedmetric p = (0, None)"
  by (simp add: extractMetric_def line_zero_def underreplicatedmetric_def HasPrefix_def
      TrimSuffix_def HasSuffix_def sampleParseFloat_zero)

lemma extract_line_some:
  "extractMetric sampleParseFloat line_some underreplicatedmetric p
     = (- 1, Some (Fundamental (''under replica is not zero for partition '' @ FormatInt (sint p))))"
  by (simp add: extractMetric_def line_some_def underreplicatedmetric_def HasPrefix_def
      TrimSuffix_def HasSuffix_def sampleParseFloat_some)

lemma check_sample:
  "fst (checkUnderReplicatedMetric hc_sample logSuffix podname stsname stsnamespace p w) = None"
  by (simp add: checkUnderReplicatedMetric_def hc_sample_def extract_line_zero)

lemma check_never:
  "fst (checkUnderReplicatedMetric hc_never logSuffix podname stsname stsnamespace p w)
     = Some (Fundamental (''under replica is not zero for partition '' @ FormatInt (sint p)))"
  by (simp add: checkUnderReplicatedMetric_def hc_never_def hc_sample_def extract_line_some)

lemma check_nocurl:
  "fst (checkUnderReplicatedMetric hc_nocurl logSuffix podname stsname stsnamespace p w)
     = Some (CurlNotFoundErr (Fundamental (exec_failed podname curlnotfounderr)))"
  by (simp add: checkUnderReplicatedMetric_def hc_nocurl_def hc_sample_def ContainsAny_def curlnotfounderr_def)

lemma podName_crdb: "podName ''crdb'' 2 = ''crdb-2''" "podName ''crdb'' 1 = ''crdb-1''" "podName ''crdb'' 0 = ''crdb-0''"
  by (simp_all add: podName_def FormatInt_def)

lemma pod_events_3: "pod_events hc ''crdb'' 0 3 = [exec_event hc ''crdb'' ''crdb-2'', exec_event hc ''crdb'' ''crdb-1'', exec_event hc ''crdb'' ''crdb-0'']"
  "pod_events hc ''crdb'' 1 3 = [exec_event hc ''crdb'' ''crdb-2'', exec_event hc ''crdb'' ''crdb-1'']"
  "pod_events hc ''crdb'' 2 3 = [exec_event hc ''crdb'' ''crdb-2'']"
  "pod_events hc ''crdb'' 3 3 = []"
  by (simp_all add: pod_events_def upt_rec podName_def FormatInt_def)

lemma check_settling_2:
  "fst (checkUnderReplicatedMetric hc_settling logSuffix ''crdb-2'' stsname stsnamespace p w)
     = (if w = [] then Some (Fundamental (''under replica is not zero for partition '' @ FormatInt (sint p))) else None)"
  by (simp add: checkUnderReplicatedMetric_def hc_settling_def hc_sample_def extract_line_some extract_line_zero)

lemma check_settling_other:
  "podname \<noteq> ''crdb-2'' \<Longrightarrow> fst (checkUnderReplicatedMetric hc_settling logSuffix podname stsname stsnamespace p w)
     = Some (CurlNotFoundErr (Fundamental (exec_failed podname curlnotfounderr)))"
  by (simp add: checkUnderReplicatedMetric_def hc_settling_def hc_sample_def ContainsAny_def curlnotfounderr_def)

subsection \<open>The sweep over the pods\<close>

lemma snd_checkUnderReplicatedMetric:
  "snd (checkUnderReplicatedMetric hc logSuffix podname stsname stsnamespace p w)
     = w @ [exec_event hc stsname podname]"
  by (simp add: checkUnderReplicatedMetric_def exec_event_def Let_def
      split: prod.splits option.splits)

lemma sint_of_nat32: "n < 2 ^ 31 \<Longrightarrow> sint (of_nat n :: 32 word) = int n"
proof -
  assume "n < 2 ^ 31"
  then have "int n < 2 ^ 31" by (metis of_nat_less_numeral_power_cancel_iff)
  then show ?thesis
    by (simp add: signed_of_nat signed_take_bit_int_eq_self)
qed

lemma pod_events_Suc: "k < n \<Longrightarrow>
  pod_events hc stsname (Suc k) n @ [exec_event hc stsname (podName stsname k)] = pod_events hc stsname k n"
  by (simp add: pod_events_def upt_conv_Cons)

lemma checkLoop_below_zero: "checkLoop hc logSuffix stsname stsnamespace (- 1) w = (None, w)"
  by (simp add: checkLoop.simps)

lemma checkLoop_step:
  assumes "m < 2 ^ 31"
  shows "checkLoop hc logSuffix stsname stsnamespace (of_nat m) w =
     (case checkUnderReplicatedMetric hc logSuffix (podName stsname m) stsname stsnamespace (of_nat m) w of
        (Some err, w') \<Rightarrow> (Some err, w')
      | (None, w') \<Rightarrow> checkLoop hc logSuffix stsname stsnamespace (of_nat m - 1) w')"
  using sint_of_nat32 [OF assms]
  by (subst checkLoop.simps) (simp add: podName_def)

lemma checkLoop_all_converge:
  assumes "n < 2 ^ 31" and "m \<le> n"
    and "\<forall>j<m. pod_outcome hc logSuffix stsname stsnamespace w n j = None"
  shows "checkLoop hc logSuffix stsname stsnamespace (of_nat m - 1) (w @ pod_events hc stsname m n)
           = (None, w @ pod_events hc stsname 0 n)"
  using assms(2,3)
proof (induction m)
  case 0
  then show ?case by (simp add: checkLoop_below_zero)
next
  case (Suc m)
  let ?w = "w @ pod_events hc stsname (Suc m) n"
  let ?c = "checkUnderReplicatedMetric hc logSuffix (podName stsname m) stsname stsnamespace (of_nat m) ?w"
  have m: "m < 2 ^ 31" and mn: "m < n" using Suc.prems assms(1) by simp_all
  have "fst ?c = None" using Suc.prems(2) by (simp add: pod_outcome_def)
  moreover have "snd ?c = w @ pod_events hc stsname m n"
    by (simp add: snd_checkUnderReplicatedMetric pod_events_Suc [OF mn])
  ultimately have c: "?c = (None, w @ pod_events hc stsname m n)"
    by (simp add: prod_eq_iff)
  have "checkLoop hc logSuffix stsname stsnamespace (of_nat (Suc m) - 1) ?w
          = checkLoop hc logSuffix stsname stsnamespace (of_nat m - 1) (w @ pod_events hc stsname m n)"
    using checkLoop_step [OF m, of hc logSuffix stsname stsnamespace ?w] c by simp
  then show ?case using Suc by simp
qed

lemma checkLoop_first_failure:
  assumes "n < 2 ^ 31" and "m \<le> n" and "k < m"
    and "pod_outcome hc logSuffix stsname stsnamespace w n k = Some e"
    and "\<forall>j. k < j \<and> j < m \<longrightarrow> pod_outcome hc logSuffix stsname stsnamespace w n j = None"
  shows "checkLoop hc logSuffix stsname stsnamespace (of_nat m - 1) (w @ pod_events hc stsname m n)
           = (Some e, w @ pod_events hc stsname k n)"
  using assms(2,3,5)
proof (induction m)
  case 0
  then show ?case by simp
next
  case (Suc m)
  let ?w = "w @ pod_events hc stsname (Suc m) n"
  let ?c = "checkUnderReplicatedMetric hc logSuffix (podName stsname m) stsname stsnamespace (of_nat m) ?w"
  have m: "m < 2 ^ 31" and mn: "m < n" using Suc.prems assms(1) by simp_all
  have s: "snd ?c = w @ pod_events hc stsname m n"
    by (simp add: snd_checkUnderReplicatedMetric pod_events_Suc [OF mn])
  have step: "checkLoop hc logSuffix stsname stsnamespace (of_nat (Suc m) - 1) ?w
      = (case ?c of (Some err, w') \<Rightarrow> (Some err, w')
         | (None, w') \<Rightarrow> checkLoop hc logSuffix stsname stsnamespace (of_nat m - 1) w')"
    using checkLoop_step [OF m, of hc logSuffix stsname stsnamespace ?w] by simp
  show ?case
  proof (cases "k = m")
    case True
    then have "fst ?c = Some e" using assms(4) by (simp add: pod_outcome_def)
    with s have "?c = (Some e, w @ pod_events hc stsname m n)" by (simp add: prod_eq_iff)
    then show ?thesis using step True by simp
  next
    case False
    then have km: "k < m" using Suc.prems(2) by simp
    then have "fst ?c = None" using Suc.prems(3) by (simp add: pod_outcome_def)
    with s have "?c = (None, w @ pod_events hc stsname m n)" by (simp add: prod_eq_iff)
    then show ?thesis using step Suc.IH km Suc.prems by simp
  qed
qed

lemma now_append: "now (w @ evs) = now w + now evs"
  by (simp add: now_def)

lemma now_timeSleep: "now (timeSleep d w) = now w + d"
  by (simp add: timeSleep_def now_def)

lemma sleeps_append: "sleeps (w @ evs) = sleeps w @ sleeps evs"
  by (induction w rule: sleeps.induct) auto

lemma now_sleeps: "now w = sum_list (sleeps w)"
  by (induction w rule: sleeps.induct) (auto simp: now_def)

lemma sleeps_exec_event: "sleeps [exec_event hc stsname podname] = []"
  by (simp add: exec_event_def)

lemma checkLoop_appends:
  "\<exists>evs. snd (checkLoop hc logSuffix stsname stsnamespace p w) = w @ evs \<and> sleeps evs = []"
proof (induction hc logSuffix stsname stsnamespace p w rule: checkLoop.induct)
  case (1 hc logSuffix stsname stsnamespace p w)
  show ?case
  proof (cases "0 \<le> sint p")
    case False
    then show ?thesis by (subst checkLoop.simps) simp
  next
    case True
    let ?pod = "stsname @ ''-'' @ FormatInt (sint p)"
    let ?c = "checkUnderReplicatedMetric hc logSuffix ?pod stsname stsnamespace p w"
    have s: "snd ?c = w @ [exec_event hc stsname ?pod]" by (rule snd_checkUnderReplicatedMetric)
    have d: "sleeps [exec_event hc stsname ?pod] = []" by (rule sleeps_exec_event)
    show ?thesis
    proof (cases "fst ?c")
      case None
      then have c: "?c = (None, w @ [exec_event hc stsname ?pod])" using s by (simp add: prod_eq_iff)
      from "1.IH" [OF True refl c [symmetric] refl]
      obtain evs where "snd (checkLoop hc logSuffix stsname stsnamespace (p - 1) (w @ [exec_event hc stsname ?pod]))
           = (w @ [exec_event hc stsname ?pod]) @ evs" and "sleeps evs = []"
        by blast
      then have "snd (checkLoop hc logSuffix stsname stsnamespace p w) = w @ (exec_event hc stsname ?pod # evs)
          \<and> sleeps (exec_event hc stsname ?pod # evs) = []"
        using True c d sleeps_append [of "[exec_event hc stsname ?pod]" evs]
        by (subst checkLoop.simps) simp
      then show ?thesis by blast
    next
      case (Some e)
      then have c: "?c = (Some e, w @ [exec_event hc stsname ?pod])" using s by (simp add: prod_eq_iff)
      have "snd (checkLoop hc logSuffix stsname stsnamespace p w) = w @ [exec_event hc stsname ?pod]
          \<and> sleeps [exec_event hc stsname ?pod] = []"
        using True c d by (subst checkLoop.simps) simp
      then show ?thesis by blast
    qed
  qed
qed

text \<open>
  Claim C4. A sweep over a fleet of \<open>n\<close> replicas (\<open>n\<close> an \<^verbatim>\<open>int32\<close> that is not
  negative) checks the replicas in the order \<open>n - 1\<close> down to \<open>0\<close>. When every check
  returns nil, the sweep returns nil after the checks of all the replicas, in this order.
  When replica \<open>k\<close> is the first in this order whose check returns an error, the sweep
  returns this error and has run the checks of the replicas \<open>n - 1\<close> down to \<open>k\<close> and
  no other: no replica below \<open>k\<close> is checked. The sweep returns nil only if every check
  has returned nil.
\<close>

theorem checkAllPods_order:
  assumes "n < 2 ^ 31"
  shows "((\<forall>j<n. pod_outcome hc logSuffix stsname stsnamespace w n j = None) \<longrightarrow>
            checkUnderReplicatedMetricAllPods hc logSuffix stsname stsnamespace (of_nat n) w
              = (None, w @ pod_events hc stsname 0 n))
       \<and> (\<forall>k e. k < n \<and> pod_outcome hc logSuffix stsname stsnamespace w n k = Some e
                 \<and> (\<forall>j. k < j \<and> j < n \<longrightarrow> pod_outcome hc logSuffix stsname stsnamespace w n j = None) \<longrightarrow>
            checkUnderReplicatedMetricAllPods hc logSuffix stsname stsnamespace (of_nat n) w
              = (Some e, w @ pod_events hc stsname k n))
       \<and> (fst (checkUnderReplicatedMetricAllPods hc logSuffix stsname stsnamespace (of_nat n) w) = None \<longrightarrow>
            (\<forall>j<n. pod_outcome hc logSuffix stsname stsnamespace w n j = None))"
proof -
  let ?out = "pod_outcome hc logSuffix stsname stsnamespace w n"
  let ?all = "checkUnderReplicatedMetricAllPods hc logSuffix stsname stsnamespace (of_nat n) w"
  have start: "?all = checkLoop hc logSuffix stsname stsnamespace (of_nat n - 1) (w @ pod_events hc stsname n n)"
    by (simp add: checkUnderReplicatedMetricAllPods_def pod_events_def)
  have conv: "?all = (None, w @ pod_events hc stsname 0 n)" if "\<forall>j<n. ?out j = None"
    using checkLoop_all_converge [OF assms order_refl that] start by simp
  have fail: "?all = (Some e, w @ pod_events hc stsname k n)"
    if "k < n" and "?out k = Some e" and "\<forall>j. k < j \<and> j < n \<longrightarrow> ?out j = None" for k e
    using checkLoop_first_failure [OF assms order_refl that] start by simp
  have only: "\<forall>j<n. ?out j = None" if res: "fst ?all = None"
  proof (rule ccontr)
    assume "\<not> (\<forall>j<n. ?out j = None)"
    then have ex: "\<exists>j. j < n \<and> ?out j \<noteq> None" by simp
    define k where "k = (GREATEST j. j < n \<and> ?out j \<noteq> None)"
    have k: "k < n \<and> ?out k \<noteq> None"
      unfolding k_def by (rule GreatestI_ex_nat [where b = n]) (use ex in auto)
    have "\<forall>j. k < j \<and> j < n \<longrightarrow> ?out j = None"
    proof (intro allI impI, rule ccontr)
      fix j assume j: "k < j \<and> j < n" and "?out j \<noteq> None"
      then have "j \<le> k"
        unfolding k_def by (intro Greatest_le_nat [where b = n]) auto
      with j show False by simp
    qed
    moreover obtain e where "?out k = Some e" using k by auto
    ultimately have "?all = (Some e, w @ pod_events hc stsname k n)" using fail k by simp
    with res show False by simp
  qed
  show ?thesis using conv fail only by blast
qed


theorem checkAllPods_order_witness:
  "(3::nat) < 2 ^ 31
   \<and> pod_outcome hc_sample ''x'' ''crdb'' ''ns'' [] 3 2 = None
   \<and> pod_outcome hc_sample ''x'' ''crdb'' ''ns'' [] 3 1 = None
   \<and> pod_outcome hc_sample ''x'' ''crdb'' ''ns'' [] 3 0 = None
   \<and> checkUnderReplicatedMetricAllPods hc_sample ''x'' ''crdb'' ''ns'' 3 []
       = (None, [exec_event hc_sample ''crdb'' ''crdb-2'', exec_event hc_sample ''crdb'' ''crdb-1'',
                 exec_event hc_sample ''crdb'' ''crdb-0''])
   \<and> pod_outcome hc_settling ''x'' ''crdb'' ''ns'' [Sleep 1] 3 2 = None
   \<and> pod_outcome hc_settling ''x'' ''crdb'' ''ns'' [Sleep 1] 3 1
       = Some (CurlNotFoundErr (Fundamental (exec_failed ''crdb-1'' curlnotfounderr)))
   \<and> checkUnderReplicatedMetricAllPods hc_settling ''x'' ''crdb'' ''ns'' 3 [Sleep 1]
       = (Some (CurlNotFoundErr (Fundamental (exec_failed ''crdb-1'' curlnotfounderr))),
          [Sleep 1, exec_event hc_settling ''crdb'' ''crdb-2'', exec_event hc_settling ''crdb'' ''crdb-1''])"
proof -
  have n: "(3::nat) < 2 ^ 31" by simp
  have a: "\<forall>j<3. pod_outcome hc_sample ''x'' ''crdb'' ''ns'' [] 3 j = None"
    by (simp add: pod_outcome_def check_sample)
  have b: "pod_outcome hc_settling ''x'' ''crdb'' ''ns'' [Sleep 1] 3 1
       = Some (CurlNotFoundErr (Fundamental (exec_failed ''crdb-1'' curlnotfounderr)))"
    by (simp add: pod_outcome_def podName_def FormatInt_def check_settling_other)
  have c2: "pod_outcome hc_settling ''x'' ''crdb'' ''ns'' [Sleep 1] 3 2 = None"
    by (simp add: pod_outcome_def podName_def FormatInt_def check_settling_2)
  have c: "\<forall>j. 1 < j \<and> j < 3 \<longrightarrow> pod_outcome hc_settling ''x'' ''crdb'' ''ns'' [Sleep 1] 3 j = None"
  proof (intro allI impI)
    fix j :: nat assume "1 < j \<and> j < 3"
    then have "j = 2" by simp
    then show "pod_outcome hc_settling ''x'' ''crdb'' ''ns'' [Sleep 1] 3 j = None"
      using c2 by simp
  qed
  have three: "of_nat 3 = (3 :: 32 word)" by simp
  note t1 = checkAllPods_order [OF n, of hc_sample "''x''" "''crdb''" "''ns''" "[]"]
  note t2 = checkAllPods_order [OF n, of hc_settling "''x''" "''crdb''" "''ns''" "[Sleep 1]"]
  have r1: "checkUnderReplicatedMetricAllPods hc_sample ''x'' ''crdb'' ''ns'' (of_nat 3) []
       = (None, [] @ pod_events hc_sample ''crdb'' 0 3)"
    using conjunct1 [OF t1] a by (rule mp)
  have "1 < (3::nat) \<and> pod_outcome hc_settling ''x'' ''crdb'' ''ns'' [Sleep 1] 3 1
       = Some (CurlNotFoundErr (Fundamental (exec_failed ''crdb-1'' curlnotfounderr)))
     \<and> (\<forall>j. 1 < j \<and> j < 3 \<longrightarrow> pod_outcome hc_settling ''x'' ''crdb'' ''ns'' [Sleep 1] 3 j = None)"
    using b c by simp
  then have r2: "checkUnderReplicatedMetricAllPods hc_settling ''x'' ''crdb'' ''ns'' (of_nat 3) [Sleep 1]
       = (Some (CurlNotFoundErr (Fundamental (exec_failed ''crdb-1'' curlnotfounderr))),
          [Sleep 1] @ pod_events hc_settling ''crdb'' 1 3)"
    using conjunct1 [OF conjunct2 [OF t2], THEN spec, THEN spec] by (rule rev_mp)
  have a': "pod_outcome hc_sample ''x'' ''crdb'' ''ns'' [] 3 2 = None
     \<and> pod_outcome hc_sample ''x'' ''crdb'' ''ns'' [] 3 1 = None
     \<and> pod_outcome hc_sample ''x'' ''crdb'' ''ns'' [] 3 0 = None"
    using a by simp
  show ?thesis
    using n a' b c2 r1 r2 unfolding three pod_events_3 by simp
qed

subsection \<open>The retry loop\<close>

lemma instant_sweep:
  "instant (checkUnderReplicatedMetricAllPods hc logSuffix stsname stsnamespace replicas)"
  unfolding instant_def checkUnderReplicatedMetricAllPods_def
  using checkLoop_appends by blast

lemma instant_now: "instant operation \<Longrightarrow> now (snd (operation w)) = now w"
proof -
  assume "instant operation"
  then obtain evs where "snd (operation w) = w @ evs" and "sleeps evs = []"
    unfolding instant_def by blast
  then show ?thesis by (simp add: now_sleeps sleeps_append)
qed

lemma increment_bounds:
  assumes "0 < MultiplierDen b" and "MultiplierDen b \<le> MultiplierNum b" and "0 < MaxInterval b"
    and "0 < cur"
  shows "0 < incrementCurrentInterval b cur \<and> incrementCurrentInterval b cur \<le> MaxInterval b"
proof -
  have "cur * MultiplierDen b \<le> cur * MultiplierNum b" using assms(2) by simp
  then have "cur * MultiplierDen b div MultiplierDen b \<le> cur * MultiplierNum b div MultiplierDen b"
    by (rule div_le_mono)
  then have "cur \<le> cur * MultiplierNum b div MultiplierDen b"
    using assms(1) by simp
  then show ?thesis using assms(3,4) by (simp add: incrementCurrentInterval_def)
qed

lemma RetryLoop_converged:
  "fst (operation w) = None \<Longrightarrow> RetryLoop operation b st cur w = Some (operation w)"
  by (subst RetryLoop.simps) (auto split: prod.splits)

lemma RetryLoop_post:
  assumes op: "instant operation"
    and b: "0 < MultiplierDen b" "MultiplierDen b \<le> MultiplierNum b" "0 < MaxInterval b"
  shows "0 < cur \<Longrightarrow> cur \<le> MaxInterval b \<Longrightarrow>
    \<exists>n v evs. v = attempt operation b n cur w \<and> v = w @ evs
       \<and> RetryLoop operation b st cur w = Some (operation v)
       \<and> (\<forall>i<n. fst (operation (attempt operation b i cur w)) \<noteq> None
                 \<and> \<not> MaxElapsedTime b < now (attempt operation b i cur w) - st)
       \<and> (\<forall>d\<in>set (sleeps evs). d \<le> MaxInterval b)
       \<and> sleeps evs = intervals b cur n
       \<and> now v \<le> max (now w) (st + MaxElapsedTime b + MaxInterval b)
       \<and> (fst (operation v) \<noteq> None \<longrightarrow> MaxElapsedTime b < now v - st)
       \<and> (fst (operation w) = None \<longrightarrow> evs = [])"
proof (induction "st + MaxElapsedTime b + 1 - now w" arbitrary: cur w rule: less_induct)
  case less
  obtain r w' where r: "operation w = (r, w')" by (cases "operation w") auto
  obtain evs0 where evs0: "w' = w @ evs0" "sleeps evs0 = []"
    using op r unfolding instant_def by (metis snd_conv)
  have noww': "now w' = now w" using instant_now [OF op, of w] r by simp
  show ?case
  proof (cases "r = None \<or> MaxElapsedTime b < now w' - st")
    case True
    then have "RetryLoop operation b st cur w = Some (operation w)"
      using r by (subst RetryLoop.simps) (auto split: option.splits)
    moreover have "fst (operation w) \<noteq> None \<longrightarrow> MaxElapsedTime b < now w - st"
      using True r noww' by auto
    ultimately have "w = attempt operation b 0 cur w \<and> w = w @ []
       \<and> RetryLoop operation b st cur w = Some (operation w)
       \<and> (\<forall>i<0. fst (operation (attempt operation b i cur w)) \<noteq> None
                 \<and> \<not> MaxElapsedTime b < now (attempt operation b i cur w) - st)
       \<and> (\<forall>d\<in>set (sleeps []). d \<le> MaxInterval b)
       \<and> sleeps [] = intervals b cur 0
       \<and> now w \<le> max (now w) (st + MaxElapsedTime b + MaxInterval b)
       \<and> (fst (operation w) \<noteq> None \<longrightarrow> MaxElapsedTime b < now w - st)
       \<and> (fst (operation w) = None \<longrightarrow> [] = ([] :: world))"
      by simp
    then show ?thesis by (intro exI [of _ 0] exI [of _ w] exI [of _ "[]"])
  next
    case False
    then obtain e where e: "r = Some e" and within: "\<not> MaxElapsedTime b < now w' - st" by auto
    let ?w2 = "timeSleep cur w'" and ?cur2 = "incrementCurrentInterval b cur"
    have unfold: "RetryLoop operation b st cur w = RetryLoop operation b st ?cur2 ?w2"
      using r e within by (subst RetryLoop.simps) simp
    have now2: "now ?w2 = now w + cur" using noww' by (simp add: now_timeSleep)
    have le: "now w \<le> st + MaxElapsedTime b" using within noww' by simp
    have smaller: "st + MaxElapsedTime b + 1 - now ?w2 < st + MaxElapsedTime b + 1 - now w"
      using now2 le less.prems(1) by simp
    have cur2: "0 < ?cur2" "?cur2 \<le> MaxInterval b"
      using increment_bounds [OF b less.prems(1)] by simp_all
    from less.hyps [OF smaller cur2]
    obtain n v evs where vv: "v = attempt operation b n ?cur2 ?w2 \<and> v = ?w2 @ evs
      \<and> RetryLoop operation b st ?cur2 ?w2 = Some (operation v)
      \<and> (\<forall>i<n. fst (operation (attempt operation b i ?cur2 ?w2)) \<noteq> None
                \<and> \<not> MaxElapsedTime b < now (attempt operation b i ?cur2 ?w2) - st)
      \<and> (\<forall>d\<in>set (sleeps evs). d \<le> MaxInterval b)
      \<and> sleeps evs = intervals b ?cur2 n
      \<and> now v \<le> max (now ?w2) (st + MaxElapsedTime b + MaxInterval b)
      \<and> (fst (operation v) \<noteq> None \<longrightarrow> MaxElapsedTime b < now v - st)
      \<and> (fst (operation ?w2) = None \<longrightarrow> evs = [])"
      by (elim exE) (rule that)
    note v = vv [THEN conjunct1] vv [THEN conjunct2, THEN conjunct1]
      vv [THEN conjunct2, THEN conjunct2, THEN conjunct1]
      vv [THEN conjunct2, THEN conjunct2, THEN conjunct2, THEN conjunct1]
      vv [THEN conjunct2, THEN conjunct2, THEN conjunct2, THEN conjunct2, THEN conjunct1]
      vv [THEN conjunct2, THEN conjunct2, THEN conjunct2, THEN conjunct2, THEN conjunct2, THEN conjunct1]
      vv [THEN conjunct2, THEN conjunct2, THEN conjunct2, THEN conjunct2, THEN conjunct2, THEN conjunct2,
          THEN conjunct1]
      vv [THEN conjunct2, THEN conjunct2, THEN conjunct2, THEN conjunct2, THEN conjunct2, THEN conjunct2,
          THEN conjunct2, THEN conjunct1]
    let ?evs = "evs0 @ [Sleep cur] @ evs"
    have step: "attempt operation b (Suc i) cur w = attempt operation b i ?cur2 ?w2" for i
      using r by simp
    have sl: "sleeps ?evs = cur # sleeps evs"
      using evs0(2) by (simp add: sleeps_append)
    have "now ?w2 \<le> st + MaxElapsedTime b + MaxInterval b" using now2 le less.prems(2) by simp
    then have nv: "now v \<le> max (now w) (st + MaxElapsedTime b + MaxInterval b)" using v(7) by simp
    have first: "fst (operation w) \<noteq> None \<and> \<not> MaxElapsedTime b < now w - st"
      using r e within noww' by simp
    have earlier: "fst (operation (attempt operation b i cur w)) \<noteq> None
                 \<and> \<not> MaxElapsedTime b < now (attempt operation b i cur w) - st" if "i < Suc n" for i
    proof (cases i)
      case 0
      then show ?thesis using first by simp
    next
      case (Suc j)
      then have "j < n" using that by simp
      then show ?thesis using v(4) Suc step by simp
    qed
    show ?thesis
    proof (intro exI conjI)
      show "v = attempt operation b (Suc n) cur w" using v(1) step by simp
      show "v = w @ ?evs" using v(2) evs0(1) by (simp add: timeSleep_def)
      show "RetryLoop operation b st cur w = Some (operation v)" using unfold v(3) by simp
      show "\<forall>i<Suc n. fst (operation (attempt operation b i cur w)) \<noteq> None
                 \<and> \<not> MaxElapsedTime b < now (attempt operation b i cur w) - st"
        using earlier by blast
      show "\<forall>d\<in>set (sleeps ?evs). d \<le> MaxInterval b"
        unfolding sl using v(5) less.prems(2) by simp
      show "sleeps ?evs = intervals b cur (Suc n)"
        unfolding sl using v(6) by simp
      show "now v \<le> max (now w) (st + MaxElapsedTime b + MaxInterval b)" by (rule nv)
      show "fst (operation v) \<noteq> None \<longrightarrow> MaxElapsedTime b < now v - st" by (rule v(8))
      show "fst (operation w) = None \<longrightarrow> ?evs = []" using r e by simp
    qed
  qed
qed

subsection \<open>waitUntilUnderReplicatedMetricIsZero\<close>

lemma waitUntil_converged:
  assumes "fst (checkUnderReplicatedMetricAllPods hc logSuffix stsname stsnamespace replicas w) = None"
  shows "waitUntilUnderReplicatedMetricIsZero hc logSuffix stsname stsnamespace replicas w
           = Some (None, snd (checkUnderReplicatedMetricAllPods hc logSuffix stsname stsnamespace replicas w))"
proof -
  let ?f = "checkUnderReplicatedMetricAllPods hc logSuffix stsname stsnamespace replicas"
  have "Retry ?f b w = Some (None, snd (?f w))" for b
    using RetryLoop_converged [where operation = ?f and w = w, OF assms] assms
    by (simp add: Retry_def prod_eq_iff)
  then show ?thesis by (simp add: waitUntilUnderReplicatedMetricIsZero_def)
qed

lemma waitUntil_last_sweep:
  "\<exists>v evs. v = w @ evs
     \<and> waitUntilUnderReplicatedMetricIsZero hc logSuffix stsname stsnamespace replicas w
         = Some (map_option (\<lambda>err. Wrapf err (''replicas check probe failed for cluster '' @ logSuffix))
                   (fst (checkUnderReplicatedMetricAllPods hc logSuffix stsname stsnamespace replicas v)),
                 snd (checkUnderReplicatedMetricAllPods hc logSuffix stsname stsnamespace replicas v))"
proof -
  let ?f = "checkUnderReplicatedMetricAllPods hc logSuffix stsname stsnamespace replicas"
  let ?b = "NewExponentialBackOff\<lparr>MaxElapsedTime := 3 * Minute, MaxInterval := 10 * Second\<rparr>"
  have b: "0 < MultiplierDen ?b" "MultiplierDen ?b \<le> MultiplierNum ?b" "0 < MaxInterval ?b"
    by (simp_all add: NewExponentialBackOff_def Second_def)
  have i: "0 < InitialInterval ?b" "InitialInterval ?b \<le> MaxInterval ?b"
    by (simp_all add: NewExponentialBackOff_def Second_def)
  from RetryLoop_post [where operation = ?f and b = ?b and cur = "InitialInterval ?b"
      and w = w and st = "now w", OF instant_sweep b i]
  obtain n v evs where v: "v = w @ evs"
    and r: "RetryLoop ?f ?b (now w) (InitialInterval ?b) w = Some (?f v)"
    by (elim exE conjE) (rule that)
  have "waitUntilUnderReplicatedMetricIsZero hc logSuffix stsname stsnamespace replicas w
         = Some (map_option (\<lambda>err. Wrapf err (''replicas check probe failed for cluster '' @ logSuffix))
                   (fst (?f v)), snd (?f v))"
    using r by (cases "?f v")
      (auto simp: waitUntilUnderReplicatedMetricIsZero_def Retry_def split: option.splits)
  with v show ?thesis by (intro exI conjI)
qed

subsection \<open>Sweeps of the sample stateful sets\<close>

lemma sweep_converges:
  assumes "n < 2 ^ 31"
    and "\<forall>j<n. pod_outcome hc logSuffix stsname stsnamespace w n j = None"
  shows "checkUnderReplicatedMetricAllPods hc logSuffix stsname stsnamespace (of_nat n) w
           = (None, w @ pod_events hc stsname 0 n)"
  using checkLoop_all_converge [OF assms(1) order_refl assms(2)]
  by (simp add: checkUnderReplicatedMetricAllPods_def pod_events_def)

lemma sweep_fails:
  assumes "n < 2 ^ 31" and "k < n"
    and "pod_outcome hc logSuffix stsname stsnamespace w n k = Some e"
    and "\<forall>j. k < j \<and> j < n \<longrightarrow> pod_outcome hc logSuffix stsname stsnamespace w n j = None"
  shows "checkUnderReplicatedMetricAllPods hc logSuffix stsname stsnamespace (of_nat n) w
           = (Some e, w @ pod_events hc stsname k n)"
  using checkLoop_first_failure [OF assms(1) order_refl assms(2,3,4)]
  by (simp add: checkUnderReplicatedMetricAllPods_def pod_events_def)

lemma three: "of_nat 3 = (3 :: 32 word)" "(3::nat) < 2 ^ 31"
  by simp_all

lemma none_between_2_3: "(2 < j \<and> j < (3::nat)) = False"
  by auto

lemma sweep_sample:
  "checkUnderReplicatedMetricAllPods hc_sample logSuffix ''crdb'' stsnamespace 3 w
     = (None, w @ [exec_event hc_sample ''crdb'' ''crdb-2'', exec_event hc_sample ''crdb'' ''crdb-1'',
                   exec_event hc_sample ''crdb'' ''crdb-0''])"
proof -
  have "\<forall>j<3. pod_outcome hc_sample logSuffix ''crdb'' stsnamespace w 3 j = None"
    by (simp add: pod_outcome_def check_sample)
  from sweep_converges [OF three(2) this] show ?thesis
    unfolding three(1) pod_events_3 .
qed

lemma sweep_never:
  "checkUnderReplicatedMetricAllPods hc_never logSuffix ''crdb'' stsnamespace 3 w
     = (Some (Fundamental ''under replica is not zero for partition 2''),
        w @ [exec_event hc_never ''crdb'' ''crdb-2''])"
proof -
  have a: "pod_outcome hc_never logSuffix ''crdb'' stsnamespace w 3 2
             = Some (Fundamental ''under replica is not zero for partition 2'')"
    by (simp add: pod_outcome_def check_never FormatInt_def)
  have b: "\<forall>j. 2 < j \<and> j < 3 \<longrightarrow> pod_outcome hc_never logSuffix ''crdb'' stsnamespace w 3 j = None"
    by (simp add: none_between_2_3)
  have k: "(2::nat) < 3" by simp
  from sweep_fails [OF three(2) k a b] show ?thesis
    unfolding three(1) pod_events_3 .
qed

lemma sweep_nocurl:
  "checkUnderReplicatedMetricAllPods hc_nocurl logSuffix ''crdb'' stsnamespace 3 w
     = (Some (CurlNotFoundErr (Fundamental (exec_failed ''crdb-2'' curlnotfounderr))),
        w @ [exec_event hc_nocurl ''crdb'' ''crdb-2''])"
proof -
  have a: "pod_outcome hc_nocurl logSuffix ''crdb'' stsnamespace w 3 2
             = Some (CurlNotFoundErr (Fundamental (exec_failed ''crdb-2'' curlnotfounderr)))"
    by (simp add: pod_outcome_def check_nocurl podName_def FormatInt_def)
  have b: "\<forall>j. 2 < j \<and> j < 3 \<longrightarrow> pod_outcome hc_nocurl logSuffix ''crdb'' stsnamespace w 3 j = None"
    by (simp add: none_between_2_3)
  have k: "(2::nat) < 3" by simp
  from sweep_fails [OF three(2) k a b] show ?thesis
    unfolding three(1) pod_events_3 .
qed

lemma sweep_settling_first:
  "checkUnderReplicatedMetricAllPods hc_settling logSuffix ''crdb'' stsnamespace 3 []
     = (Some (Fundamental ''under replica is not zero for partition 2''),
        [exec_event hc_settling ''crdb'' ''crdb-2''])"
proof -
  have a: "pod_outcome hc_settling logSuffix ''crdb'' stsnamespace [] 3 2
             = Some (Fundamental ''under replica is not zero for partition 2'')"
    by (simp add: pod_outcome_def podName_def FormatInt_def check_settling_2 pod_events_def)
  have b: "\<forall>j. 2 < j \<and> j < 3 \<longrightarrow> pod_outcome hc_settling logSuffix ''crdb'' stsnamespace [] 3 j = None"
    by (simp add: none_between_2_3)
  have k: "(2::nat) < 3" by simp
  from sweep_fails [OF three(2) k a b] show ?thesis
    unfolding three(1) pod_events_3 by simp
qed

lemma sweep_settling_later:
  assumes "w \<noteq> []"
  shows "checkUnderReplicatedMetricAllPods hc_settling logSuffix ''crdb'' stsnamespace 3 w
     = (Some (CurlNotFoundErr (Fundamental (exec_failed ''crdb-1'' curlnotfounderr))),
        w @ [exec_event hc_settling ''crdb'' ''crdb-2'', exec_event hc_settling ''crdb'' ''crdb-1''])"
proof -
  have a: "pod_outcome hc_settling logSuffix ''crdb'' stsnamespace w 3 1
             = Some (CurlNotFoundErr (Fundamental (exec_failed ''crdb-1'' curlnotfounderr)))"
    by (simp add: pod_outcome_def podName_def FormatInt_def check_settling_other)
  have c2: "pod_outcome hc_settling logSuffix ''crdb'' stsnamespace w 3 2 = None"
    using assms by (simp add: pod_outcome_def podName_def FormatInt_def check_settling_2)
  have b: "\<forall>j. 1 < j \<and> j < 3 \<longrightarrow> pod_outcome hc_settling logSuffix ''crdb'' stsnamespace w 3 j = None"
  proof (intro allI impI)
    fix j :: nat assume "1 < j \<and> j < 3"
    then have "j = 2" by simp
    then show "pod_outcome hc_settling logSuffix ''crdb'' stsnamespace w 3 j = None"
      using c2 by simp
  qed
  have k: "(1::nat) < 3" by simp
  from sweep_fails [OF three(2) k a b] show ?thesis
    unfolding three(1) pod_events_3 .
qed

lemma check_late:
  "fst (checkUnderReplicatedMetric hc_late logSuffix podname stsname stsnamespace p w)
     = (if w = [] then Some (Fundamental (''under replica is not zero for partition '' @ FormatInt (sint p)))
        else None)"
  by (simp add: checkUnderReplicatedMetric_def hc_late_def hc_sample_def extract_line_some extract_line_zero)

lemma sweep_late_first:
  "checkUnderReplicatedMetricAllPods hc_late logSuffix ''crdb'' stsnamespace 3 []
     = (Some (Fundamental ''under replica is not zero for partition 2''),
        [exec_event hc_late ''crdb'' ''crdb-2''])"
proof -
  have a: "pod_outcome hc_late logSuffix ''crdb'' stsnamespace [] 3 2
             = Some (Fundamental ''under replica is not zero for partition 2'')"
    by (simp add: pod_outcome_def FormatInt_def check_late pod_events_def)
  have b: "\<forall>j. 2 < j \<and> j < 3 \<longrightarrow> pod_outcome hc_late logSuffix ''crdb'' stsnamespace [] 3 j = None"
    by (simp add: none_between_2_3)
  have k: "(2::nat) < 3" by simp
  from sweep_fails [OF three(2) k a b] show ?thesis
    unfolding three(1) pod_events_3 by simp
qed

lemma sweep_late_later:
  assumes "w \<noteq> []"
  shows "checkUnderReplicatedMetricAllPods hc_late logSuffix ''crdb'' stsnamespace 3 w
     = (None, w @ [exec_event hc_late ''crdb'' ''crdb-2'', exec_event hc_late ''crdb'' ''crdb-1'',
                   exec_event hc_late ''crdb'' ''crdb-0''])"
proof -
  have "\<forall>j<3. pod_outcome hc_late logSuffix ''crdb'' stsnamespace w 3 j = None"
    using assms by (simp add: pod_outcome_def check_late)
  from sweep_converges [OF three(2) this] show ?thesis
    unfolding three(1) pod_events_3 .
qed

lemma check_evicted:
  "fst (checkUnderReplicatedMetric hc_evicted logSuffix podname stsname stsnamespace p w)
     = (if Sleep (22 * Second) \<in> set w
        then Some (Fundamental (''under replica is not zero for partition '' @ FormatInt (sint p)))
        else None)"
  by (simp add: checkUnderReplicatedMetric_def hc_evicted_def hc_sample_def extract_line_some extract_line_zero)

lemma Sleep_not_pod_event: "Sleep d \<notin> set (pod_events hc stsname k n)"
  by (auto simp: pod_events_def exec_event_def)

lemma sweep_evicted_before:
  assumes "Sleep (22 * Second) \<notin> set w"
  shows "checkUnderReplicatedMetricAllPods hc_evicted logSuffix ''crdb'' stsnamespace 3 w
     = (None, w @ [exec_event hc_evicted ''crdb'' ''crdb-2'', exec_event hc_evicted ''crdb'' ''crdb-1'',
                   exec_event hc_evicted ''crdb'' ''crdb-0''])"
proof -
  have "\<forall>j<3. pod_outcome hc_evicted logSuffix ''crdb'' stsnamespace w 3 j = None"
    using assms by (simp add: pod_outcome_def check_evicted Sleep_not_pod_event)
  from sweep_converges [OF three(2) this] show ?thesis
    unfolding three(1) pod_events_3 .
qed

lemma sweep_evicted_after:
  assumes "Sleep (22 * Second) \<in> set w"
  shows "checkUnderReplicatedMetricAllPods hc_evicted logSuffix ''crdb'' stsnamespace 3 w
     = (Some (Fundamental ''under replica is not zero for partition 2''),
        w @ [exec_event hc_evicted ''crdb'' ''crdb-2''])"
proof -
  have a: "pod_outcome hc_evicted logSuffix ''crdb'' stsnamespace w 3 2
             = Some (Fundamental ''under replica is not zero for partition 2'')"
    using assms by (simp add: pod_outcome_def check_evicted FormatInt_def)
  have b: "\<forall>j. 2 < j \<and> j < 3 \<longrightarrow> pod_outcome hc_evicted logSuffix ''crdb'' stsnamespace w 3 j = None"
    by (simp add: none_between_2_3)
  have k: "(2::nat) < 3" by simp
  from sweep_fails [OF three(2) k a b] show ?thesis
    unfolding three(1) pod_events_3 .
qed

subsection \<open>The poller\<close>

lemma intervals_numeral:
  "intervals b cur (numeral k) = cur # intervals b (incrementCurrentInterval b cur) (pred_numeral k)"
  by (simp add: numeral_eq_Suc)

lemma intervals_9:
  "intervals (NewExponentialBackOff\<lparr>MaxElapsedTime := 3 * Minute, MaxInterval := 10 * Second\<rparr>)
       500000000 9
     = [500000000, 750000000, 1125000000, 1687500000, 2531250000, 3796875000, 5695312500,
        8542968750, 10000000000]"
  by (simp add: intervals_numeral incrementCurrentInterval_def NewExponentialBackOff_def Second_def)

text \<open>
  Claim C8, against the retry loop modelled from the specification. For every checker and
  every start \<open>w\<close>, \<open>waitUntilUnderReplicatedMetricIsZero\<close> returns, after some number
  \<open>n\<close> of failed sweeps and one last sweep. The sweeps are the attempts of the policy: each
  of the \<open>n\<close> sweeps before the last has returned an error while no more than 3 minutes
  had passed, and has been followed by the sleep of the interval that was current; so the
  poller retries exactly as long as the sweeps fail within the budget, and the sweep in
  which it returns is the first that returns nil or that ends after the 3 minutes. What is
  returned is the outcome of this last sweep, with nothing done after it: nil when the
  sweep returned nil, and otherwise, when more than 3 minutes have passed, its error
  wrapped with the message of the failed probe. The \<open>n\<close> sleeps are the first \<open>n\<close>
  intervals of the policy from 500 ms on, each at most 10 seconds, and the last sweep
  starts at most 3 minutes and 10 seconds after the start. When the first sweep returns nil
  there is no earlier event. In particular a sweep that never converges makes the poller
  return an error and not run forever.
\<close>

theorem waitUntil_backoff:
  "\<exists>n v evs.
     v = attempt (checkUnderReplicatedMetricAllPods hc logSuffix stsname stsnamespace replicas)
           (NewExponentialBackOff\<lparr>MaxElapsedTime := 3 * Minute, MaxInterval := 10 * Second\<rparr>)
           n 500000000 w
     \<and> v = w @ evs
     \<and> waitUntilUnderReplicatedMetricIsZero hc logSuffix stsname stsnamespace replicas w
         = Some (map_option (\<lambda>err. Wrapf err (''replicas check probe failed for cluster '' @ logSuffix))
                   (fst (checkUnderReplicatedMetricAllPods hc logSuffix stsname stsnamespace replicas v)),
                 snd (checkUnderReplicatedMetricAllPods hc logSuffix stsname stsnamespace replicas v))
     \<and> (\<forall>i<n.
           fst (checkUnderReplicatedMetricAllPods hc logSuffix stsname stsnamespace replicas
                  (attempt (checkUnderReplicatedMetricAllPods hc logSuffix stsname stsnamespace replicas)
                     (NewExponentialBackOff\<lparr>MaxElapsedTime := 3 * Minute, MaxInterval := 10 * Second\<rparr>)
                     i 500000000 w)) \<noteq> None
           \<and> now (attempt (checkUnderReplicatedMetricAllPods hc logSuffix stsname stsnamespace replicas)
                     (NewExponentialBackOff\<lparr>MaxElapsedTime := 3 * Minute, MaxInterval := 10 * Second\<rparr>)
                     i 500000000 w) \<le> now w + 3 * Minute)
     \<and> (\<forall>d\<in>set (sleeps evs). d \<le> 10 * Second)
     \<and> sleeps evs
         = intervals (NewExponentialBackOff\<lparr>MaxElapsedTime := 3 * Minute, MaxInterval := 10 * Second\<rparr>)
             500000000 n
     \<and> now v \<le> now w + 3 * Minute + 10 * Second
     \<and> (fst (checkUnderReplicatedMetricAllPods hc logSuffix stsname stsnamespace replicas v) \<noteq> None
          \<longrightarrow> now w + 3 * Minute < now v)
     \<and> (fst (checkUnderReplicatedMetricAllPods hc logSuffix stsname stsnamespace replicas w) = None
          \<longrightarrow> evs = [])"
proof -
  let ?f = "checkUnderReplicatedMetricAllPods hc logSuffix stsname stsnamespace replicas"
  let ?b = "NewExponentialBackOff\<lparr>MaxElapsedTime := 3 * Minute, MaxInterval := 10 * Second\<rparr>"
  have b: "0 < MultiplierDen ?b" "MultiplierDen ?b \<le> MultiplierNum ?b" "0 < MaxInterval ?b"
    by (simp_all add: NewExponentialBackOff_def Second_def)
  have i: "0 < InitialInterval ?b" "InitialInterval ?b \<le> MaxInterval ?b"
    by (simp_all add: NewExponentialBackOff_def Second_def)
  have init: "InitialInterval ?b = 500000000" by (simp add: NewExponentialBackOff_def)
  from RetryLoop_post [where operation = ?f and b = ?b and cur = "InitialInterval ?b"
      and w = w and st = "now w", OF instant_sweep b i]
  obtain n v evs where vv: "v = attempt ?f ?b n (InitialInterval ?b) w \<and> v = w @ evs
       \<and> RetryLoop ?f ?b (now w) (InitialInterval ?b) w = Some (?f v)
       \<and> (\<forall>i<n. fst (?f (attempt ?f ?b i (InitialInterval ?b) w)) \<noteq> None
                 \<and> \<not> MaxElapsedTime ?b < now (attempt ?f ?b i (InitialInterval ?b) w) - now w)
       \<and> (\<forall>d\<in>set (sleeps evs). d \<le> MaxInterval ?b)
       \<and> sleeps evs = intervals ?b (InitialInterval ?b) n
       \<and> now v \<le> max (now w) (now w + MaxElapsedTime ?b + MaxInterval ?b)
       \<and> (fst (?f v) \<noteq> None \<longrightarrow> MaxElapsedTime ?b < now v - now w)
       \<and> (fst (?f w) = None \<longrightarrow> evs = [])"
    by (elim exE) (rule that)
  note v = vv [THEN conjunct1] vv [THEN conjunct2, THEN conjunct1]
    vv [THEN conjunct2, THEN conjunct2, THEN conjunct1]
    vv [THEN conjunct2, THEN conjunct2, THEN conjunct2, THEN conjunct1]
    vv [THEN conjunct2, THEN conjunct2, THEN conjunct2, THEN conjunct2, THEN conjunct1]
    vv [THEN conjunct2, THEN conjunct2, THEN conjunct2, THEN conjunct2, THEN conjunct2, THEN conjunct1]
    vv [THEN conjunct2, THEN conjunct2, THEN conjunct2, THEN conjunct2, THEN conjunct2, THEN conjunct2,
        THEN conjunct1]
    vv [THEN conjunct2, THEN conjunct2, THEN conjunct2, THEN conjunct2, THEN conjunct2, THEN conjunct2,
        THEN conjunct2, THEN conjunct1]
    vv [THEN conjunct2, THEN conjunct2, THEN conjunct2, THEN conjunct2, THEN conjunct2, THEN conjunct2,
        THEN conjunct2, THEN conjunct2]
  have res: "waitUntilUnderReplicatedMetricIsZero hc logSuffix stsname stsnamespace replicas w
         = Some (map_option (\<lambda>err. Wrapf err (''replicas check probe failed for cluster '' @ logSuffix))
                   (fst (?f v)), snd (?f v))"
    using v(3) by (cases "?f v")
      (auto simp: waitUntilUnderReplicatedMetricIsZero_def Retry_def split: option.splits)
  have earlier: "fst (?f (attempt ?f ?b i 500000000 w)) \<noteq> None
      \<and> now (attempt ?f ?b i 500000000 w) \<le> now w + 3 * Minute" if "i < n" for i
  proof -
    from v(4) that have "fst (?f (attempt ?f ?b i (InitialInterval ?b) w)) \<noteq> None
        \<and> \<not> MaxElapsedTime ?b < now (attempt ?f ?b i (InitialInterval ?b) w) - now w"
      by blast
    then show ?thesis unfolding init by auto
  qed
  show ?thesis
  proof (intro exI conjI)
    show "v = attempt ?f ?b n 500000000 w" using v(1) unfolding init .
    show "v = w @ evs" by (rule v(2))
    show "waitUntilUnderReplicatedMetricIsZero hc logSuffix stsname stsnamespace replicas w
         = Some (map_option (\<lambda>err. Wrapf err (''replicas check probe failed for cluster '' @ logSuffix))
                   (fst (?f v)), snd (?f v))" by (rule res)
    show "\<forall>i<n. fst (?f (attempt ?f ?b i 500000000 w)) \<noteq> None
        \<and> now (attempt ?f ?b i 500000000 w) \<le> now w + 3 * Minute"
      using earlier by blast
    show "\<forall>d\<in>set (sleeps evs). d \<le> 10 * Second" using v(5) by simp
    show "sleeps evs = intervals ?b 500000000 n" using v(6) unfolding init .
    show "now v \<le> now w + 3 * Minute + 10 * Second" using v(7) by simp
    show "fst (?f v) \<noteq> None \<longrightarrow> now w + 3 * Minute < now v" using v(8) by auto
    show "fst (?f w) = None \<longrightarrow> evs = []" by (rule v(9))
  qed
qed

theorem waitUntil_backoff_witness:
  "waitUntilUnderReplicatedMetricIsZero hc_sample ''x'' ''crdb'' ''ns'' 3 []
     = Some (None, [exec_event hc_sample ''crdb'' ''crdb-2'', exec_event hc_sample ''crdb'' ''crdb-1'',
                    exec_event hc_sample ''crdb'' ''crdb-0''])
   \<and> waitUntilUnderReplicatedMetricIsZero hc_late ''x'' ''crdb'' ''ns'' 3 []
     = Some (None, [exec_event hc_late ''crdb'' ''crdb-2'', Sleep 500000000,
                    exec_event hc_late ''crdb'' ''crdb-2'', exec_event hc_late ''crdb'' ''crdb-1'',
                    exec_event hc_late ''crdb'' ''crdb-0''])
   \<and> map_option fst (waitUntilUnderReplicatedMetricIsZero hc_never ''x'' ''crdb'' ''ns'' 3 [])
     = Some (Some (Wrapf (Fundamental ''under replica is not zero for partition 2'')
                     ''replicas check probe failed for cluster x''))"
proof -
  from waitUntil_backoff [of hc_sample "''x''" "''crdb''" "''ns''" 3 "[]"]
  have 1: "waitUntilUnderReplicatedMetricIsZero hc_sample ''x'' ''crdb'' ''ns'' 3 []
     = Some (None, [exec_event hc_sample ''crdb'' ''crdb-2'', exec_event hc_sample ''crdb'' ''crdb-1'',
                    exec_event hc_sample ''crdb'' ''crdb-0''])"
    by (elim exE) (simp add: sweep_sample)
  let ?f = "checkUnderReplicatedMetricAllPods hc_late ''x'' ''crdb'' ''ns'' 3"
  let ?b = "NewExponentialBackOff\<lparr>MaxElapsedTime := 3 * Minute, MaxInterval := 10 * Second\<rparr>"
  let ?v1 = "[exec_event hc_late ''crdb'' ''crdb-2'', Sleep 500000000]"
  have a0: "attempt ?f ?b 0 500000000 [] = []" by simp
  have a1: "attempt ?f ?b (Suc 0) 500000000 [] = ?v1"
    by (simp add: sweep_late_first timeSleep_def)
  from waitUntil_backoff [of hc_late "''x''" "''crdb''" "''ns''" 3 "[]"]
  obtain n v evs where v: "v = attempt ?f ?b n 500000000 []"
    and res: "waitUntilUnderReplicatedMetricIsZero hc_late ''x'' ''crdb'' ''ns'' 3 []
         = Some (map_option (\<lambda>err. Wrapf err (''replicas check probe failed for cluster '' @ ''x''))
                   (fst (?f v)), snd (?f v))"
    and earlier: "\<forall>i<n. fst (?f (attempt ?f ?b i 500000000 [])) \<noteq> None
           \<and> now (attempt ?f ?b i 500000000 []) \<le> now [] + 3 * Minute"
    and last: "fst (?f v) \<noteq> None \<longrightarrow> now [] + 3 * Minute < now v"
    by (elim exE conjE) (rule that)
  have "n \<noteq> 0"
  proof
    assume "n = 0"
    then have "v = []" using v by simp
    then show False using last by (simp add: sweep_late_first now_def)
  qed
  moreover have "\<not> 1 < n"
  proof
    assume "1 < n"
    then have lt: "Suc 0 < n" by simp
    from earlier [rule_format, OF lt]
    have "fst (?f (attempt ?f ?b (Suc 0) 500000000 [])) \<noteq> None" by (rule conjunct1)
    then show False unfolding a1 by (simp add: sweep_late_later)
  qed
  ultimately have "n = Suc 0" by simp
  then have "v = ?v1" using v a1 by simp
  then have 2: "waitUntilUnderReplicatedMetricIsZero hc_late ''x'' ''crdb'' ''ns'' 3 []
     = Some (None, [exec_event hc_late ''crdb'' ''crdb-2'', Sleep 500000000,
                    exec_event hc_late ''crdb'' ''crdb-2'', exec_event hc_late ''crdb'' ''crdb-1'',
                    exec_event hc_late ''crdb'' ''crdb-0''])"
    using res by (simp add: sweep_late_later)
  from waitUntil_backoff [of hc_never "''x''" "''crdb''" "''ns''" 3 "[]"]
  have 3: "map_option fst (waitUntilUnderReplicatedMetricIsZero hc_never ''x'' ''crdb'' ''ns'' 3 [])
     = Some (Some (Wrapf (Fundamental ''under replica is not zero for partition 2'')
                     ''replicas check probe failed for cluster x''))"
    by (elim exE) (simp add: sweep_never)
  from 1 2 3 show ?thesis by (intro conjI)
qed

subsection \<open>checkUnderReplicatedMetric\<close>

text \<open>A standard error that contains \<open>curlnotfounderr\<close> as a substring makes the check
  return \<open>CurlNotFoundErr\<close> around the error of the failed command.\<close>

lemma Contains_ContainsAny: "Contains s substr \<Longrightarrow> substr \<noteq> [] \<Longrightarrow> ContainsAny s substr"
proof (induction s)
  case Nil
  then show ?case by simp
next
  case (Cons c cs)
  show ?case
  proof (cases "HasPrefix (c # cs) substr")
    case True
    then have "c = hd substr" using Cons.prems(2) by (cases substr) (auto simp: HasPrefix_def)
    then have "c \<in> set substr" using Cons.prems(2) by simp
    then show ?thesis by (simp add: ContainsAny_def)
  next
    case False
    then have "ContainsAny cs substr" using Cons by simp
    then show ?thesis by (simp add: ContainsAny_def)
  qed
qed

lemma check_tool_missing:
  assumes "ExecInPod hc w (Namespace hc) podname (DbContainerName hc)
             [''/bin/bash'', ''-c'', cmdunderreplicted podname stsname (FormatInt (sint (HTTPPort hc)))]
           = (output, stderr, err)"
    and "Contains stderr curlnotfounderr"
  shows "fst (checkUnderReplicatedMetric hc logSuffix podname stsname stsnamespace p w)
           = Some (CurlNotFoundErr (Fundamental (exec_failed podname stderr)))"
proof -
  have ne: "curlnotfounderr \<noteq> []" by (simp add: curlnotfounderr_def)
  have any: "ContainsAny stderr curlnotfounderr" using Contains_ContainsAny [OF assms(2) ne] .
  have "stderr \<noteq> []" using assms(2) ne by (cases stderr) auto
  then show ?thesis using assms(1) any by (simp add: checkUnderReplicatedMetric_def)
qed

text \<open>
  Claim C1 does not hold of the source. Line 149 tests the standard error with
  \<^verbatim>\<open>strings.ContainsAny\<close>, which asks whether any single character of
  \<open>curlnotfounderr\<close> occurs in it, not whether \<open>curlnotfounderr\<close> occurs in it as a
  substring. The standard error \<^verbatim>\<open>connection refused\<close> does not contain the substring,
  and the check still returns \<open>CurlNotFoundErr\<close> and not the plain error of line 155.
\<close>

theorem check_refused_reports_curl_not_found:
  "fst (checkUnderReplicatedMetric hc_refused ''x'' ''crdb-0'' ''crdb'' ''ns'' 0 [])
     = Some (CurlNotFoundErr
               (Fundamental ''exec in pod crdb-0 failed with stderror: connection refused ''))
   \<and> \<not> Contains ''connection refused'' curlnotfounderr"
  by (simp add: checkUnderReplicatedMetric_def hc_refused_def hc_sample_def ContainsAny_def
      curlnotfounderr_def exec_failed_def HasPrefix_def)

subsection \<open>Probe\<close>

text \<open>\<open>Probe\<close> after the stateful set has been read and is ready to serve.\<close>

lemma Probe_unfold:
  assumes "GetStatefulSet hc w (Namespace hc) (StatefulSetName hc) = Inr replicas"
    and "WaitUntilStatefulSetIsReadyToServe hc w (Namespace hc) (StatefulSetName hc) replicas = None"
    and "checkUnderReplicatedMetricAllPods hc logSuffix (StatefulSetName hc) (Namespace hc) replicas w
           = (err0, w1)"
  shows "Probe hc logSuffix nodeID w =
     (if isCurlNotFoundErr err0 then Some (None, w1 @ [Sleep (60 * Second)])
      else (case waitUntilUnderReplicatedMetricIsZero hc logSuffix (StatefulSetName hc) (Namespace hc)
                   replicas w1 of
              None \<Rightarrow> None
            | Some (Some err, w2) \<Rightarrow> Some (Some err, w2)
            | Some (None, w2) \<Rightarrow>
                waitUntilUnderReplicatedMetricIsZero hc logSuffix (StatefulSetName hc) (Namespace hc)
                  replicas (w2 @ [Sleep (22 * Second)])))"
  using assms
  by (simp add: Probe_def timeSleep_def sleepBetweenUpdates_def Minute_def
      split: option.splits prod.splits)

lemma sample_fields:
  "StatefulSetName hc_sample = ''crdb''" "Namespace hc_sample = ''ns''"
  "GetStatefulSet hc_sample w namespace name = Inr 3"
  "WaitUntilStatefulSetIsReadyToServe hc_sample w namespace name replicas = None"
  "StatefulSetName hc_nocurl = ''crdb''" "Namespace hc_nocurl = ''ns''"
  "GetStatefulSet hc_nocurl w namespace name = Inr 3"
  "WaitUntilStatefulSetIsReadyToServe hc_nocurl w namespace name replicas = None"
  "StatefulSetName hc_late = ''crdb''" "Namespace hc_late = ''ns''"
  "GetStatefulSet hc_late w namespace name = Inr 3"
  "WaitUntilStatefulSetIsReadyToServe hc_late w namespace name replicas = None"
  "StatefulSetName hc_evicted = ''crdb''" "Namespace hc_evicted = ''ns''"
  "GetStatefulSet hc_evicted w namespace name = Inr 3"
  "WaitUntilStatefulSetIsReadyToServe hc_evicted w namespace name replicas = None"
  "StatefulSetName hc_settling = ''crdb''" "Namespace hc_settling = ''ns''"
  "GetStatefulSet hc_settling w namespace name = Inr 3"
  "WaitUntilStatefulSetIsReadyToServe hc_settling w namespace name replicas = None"
  by (simp_all add: hc_sample_def hc_nocurl_def hc_late_def hc_evicted_def hc_settling_def)

text \<open>
  Claim C3. When the stateful set is ready and the sweep of the pre-check returns
  \<open>CurlNotFoundErr\<close>, \<open>Probe\<close> returns nil, and the only event after the sweep of the
  pre-check is one sleep of one minute: no command is run in a pod any more, and there is
  no sleep of 22 seconds.
\<close>

theorem Probe_curl_fallback:
  assumes "GetStatefulSet hc w (Namespace hc) (StatefulSetName hc) = Inr replicas"
    and "WaitUntilStatefulSetIsReadyToServe hc w (Namespace hc) (StatefulSetName hc) replicas = None"
    and "checkUnderReplicatedMetricAllPods hc logSuffix (StatefulSetName hc) (Namespace hc) replicas w
           = (Some (CurlNotFoundErr e), w1)"
  shows "Probe hc logSuffix nodeID w = Some (None, w1 @ [Sleep (60 * Second)])"
  using Probe_unfold [OF assms] by simp

theorem Probe_curl_fallback_witness:
  "GetStatefulSet hc_nocurl [] (Namespace hc_nocurl) (StatefulSetName hc_nocurl) = Inr 3
   \<and> WaitUntilStatefulSetIsReadyToServe hc_nocurl [] (Namespace hc_nocurl) (StatefulSetName hc_nocurl) 3 = None
   \<and> checkUnderReplicatedMetricAllPods hc_nocurl ''x'' (StatefulSetName hc_nocurl) (Namespace hc_nocurl) 3 []
       = (Some (CurlNotFoundErr (Fundamental (exec_failed ''crdb-2'' curlnotfounderr))),
          [exec_event hc_nocurl ''crdb'' ''crdb-2''])
   \<and> Probe hc_nocurl ''x'' 2 [] = Some (None, [exec_event hc_nocurl ''crdb'' ''crdb-2'', Sleep (60 * Second)])"
proof -
  have g: "GetStatefulSet hc_nocurl [] (Namespace hc_nocurl) (StatefulSetName hc_nocurl) = Inr 3"
    by (simp add: sample_fields)
  have r: "WaitUntilStatefulSetIsReadyToServe hc_nocurl [] (Namespace hc_nocurl) (StatefulSetName hc_nocurl) 3 = None"
    by (simp add: sample_fields)
  have c: "checkUnderReplicatedMetricAllPods hc_nocurl ''x'' (StatefulSetName hc_nocurl) (Namespace hc_nocurl) 3 []
       = (Some (CurlNotFoundErr (Fundamental (exec_failed ''crdb-2'' curlnotfounderr))),
          [exec_event hc_nocurl ''crdb'' ''crdb-2''])"
    by (simp add: sample_fields sweep_nocurl)
  show ?thesis using Probe_curl_fallback [OF g r c, of 2] g r c by simp
qed

text \<open>
  Claim C10. When the stateful set is ready and the sweep of the pre-check returns an error
  that is not \<open>CurlNotFoundErr\<close>, the error is dropped: \<open>Probe\<close> goes on with the first
  polled check from the events of the pre-check, returns the error of this check when it
  fails, and otherwise sleeps 22 seconds and returns what the second polled check returns.
  The error of the pre-check occurs nowhere in the result.
\<close>

theorem Probe_precheck_error_discarded:
  assumes "GetStatefulSet hc w (Namespace hc) (StatefulSetName hc) = Inr replicas"
    and "WaitUntilStatefulSetIsReadyToServe hc w (Namespace hc) (StatefulSetName hc) replicas = None"
    and "checkUnderReplicatedMetricAllPods hc logSuffix (StatefulSetName hc) (Namespace hc) replicas w
           = (Some e, w1)"
    and "\<not> isCurlNotFoundErr (Some e)"
  shows "Probe hc logSuffix nodeID w =
     (case waitUntilUnderReplicatedMetricIsZero hc logSuffix (StatefulSetName hc) (Namespace hc)
             replicas w1 of
        None \<Rightarrow> None
      | Some (Some err, w2) \<Rightarrow> Some (Some err, w2)
      | Some (None, w2) \<Rightarrow>
          waitUntilUnderReplicatedMetricIsZero hc logSuffix (StatefulSetName hc) (Namespace hc)
            replicas (w2 @ [Sleep (22 * Second)]))"
  using Probe_unfold [OF assms(1,2,3)] assms(4) by simp

theorem Probe_precheck_error_discarded_witness:
  "GetStatefulSet hc_late [] (Namespace hc_late) (StatefulSetName hc_late) = Inr 3
   \<and> WaitUntilStatefulSetIsReadyToServe hc_late [] (Namespace hc_late) (StatefulSetName hc_late) 3 = None
   \<and> checkUnderReplicatedMetricAllPods hc_late ''x'' (StatefulSetName hc_late) (Namespace hc_late) 3 []
       = (Some (Fundamental ''under replica is not zero for partition 2''),
          [exec_event hc_late ''crdb'' ''crdb-2''])
   \<and> \<not> isCurlNotFoundErr (Some (Fundamental ''under replica is not zero for partition 2''))
   \<and> Probe hc_late ''x'' 2 []
       = Some (None, [exec_event hc_late ''crdb'' ''crdb-2'',
                      exec_event hc_late ''crdb'' ''crdb-2'', exec_event hc_late ''crdb'' ''crdb-1'',
                      exec_event hc_late ''crdb'' ''crdb-0'',
                      Sleep (22 * Second),
                      exec_event hc_late ''crdb'' ''crdb-2'', exec_event hc_late ''crdb'' ''crdb-1'',
                      exec_event hc_late ''crdb'' ''crdb-0''])"
proof -
  have g: "GetStatefulSet hc_late [] (Namespace hc_late) (StatefulSetName hc_late) = Inr 3"
    by (simp add: sample_fields)
  have r: "WaitUntilStatefulSetIsReadyToServe hc_late [] (Namespace hc_late) (StatefulSetName hc_late) 3 = None"
    by (simp add: sample_fields)
  have c: "checkUnderReplicatedMetricAllPods hc_late ''x'' (StatefulSetName hc_late) (Namespace hc_late) 3 []
       = (Some (Fundamental ''under replica is not zero for partition 2''),
          [exec_event hc_late ''crdb'' ''crdb-2''])"
    by (simp add: sample_fields sweep_late_first)
  have n: "\<not> isCurlNotFoundErr (Some (Fundamental ''under replica is not zero for partition 2''))"
    by simp
  have w: "waitUntilUnderReplicatedMetricIsZero hc_late ''x'' ''crdb'' ''ns'' 3 v
             = Some (None, v @ [exec_event hc_late ''crdb'' ''crdb-2'', exec_event hc_late ''crdb'' ''crdb-1'',
                                exec_event hc_late ''crdb'' ''crdb-0''])" if "v \<noteq> []" for v
    using waitUntil_converged [of hc_late "''x''" "''crdb''" "''ns''" 3 v] sweep_late_later [OF that]
    by simp
  show ?thesis
    using Probe_precheck_error_discarded [OF g r c n, of 2] g r c n
    by (simp add: sample_fields w)
qed

text \<open>
  Claim C9. When the stateful set is ready, the pre-check has not returned
  \<open>CurlNotFoundErr\<close> and the first polled check returns nil, \<open>Probe\<close> sleeps 22 seconds
  and returns what one more polled check returns: its error when it fails, nil when it
  succeeds. The witness runs a probe whose second check succeeds and one whose second check
  fails.
\<close>

theorem Probe_second_check:
  assumes "GetStatefulSet hc w (Namespace hc) (StatefulSetName hc) = Inr replicas"
    and "WaitUntilStatefulSetIsReadyToServe hc w (Namespace hc) (StatefulSetName hc) replicas = None"
    and "checkUnderReplicatedMetricAllPods hc logSuffix (StatefulSetName hc) (Namespace hc) replicas w
           = (err0, w1)"
    and "\<not> isCurlNotFoundErr err0"
    and "waitUntilUnderReplicatedMetricIsZero hc logSuffix (StatefulSetName hc) (Namespace hc)
           replicas w1 = Some (None, w2)"
  shows "Probe hc logSuffix nodeID w =
     waitUntilUnderReplicatedMetricIsZero hc logSuffix (StatefulSetName hc) (Namespace hc)
       replicas (w2 @ [Sleep (22 * Second)])"
  using Probe_unfold [OF assms(1,2,3)] assms(4,5) by simp

theorem Probe_second_check_witness:
  "GetStatefulSet hc_sample [] (Namespace hc_sample) (StatefulSetName hc_sample) = Inr 3
   \<and> WaitUntilStatefulSetIsReadyToServe hc_sample [] (Namespace hc_sample) (StatefulSetName hc_sample) 3 = None
   \<and> checkUnderReplicatedMetricAllPods hc_sample ''x'' (StatefulSetName hc_sample) (Namespace hc_sample) 3 []
       = (None, [exec_event hc_sample ''crdb'' ''crdb-2'', exec_event hc_sample ''crdb'' ''crdb-1'',
                 exec_event hc_sample ''crdb'' ''crdb-0''])
   \<and> \<not> isCurlNotFoundErr None
   \<and> waitUntilUnderReplicatedMetricIsZero hc_sample ''x'' (StatefulSetName hc_sample) (Namespace hc_sample) 3
         [exec_event hc_sample ''crdb'' ''crdb-2'', exec_event hc_sample ''crdb'' ''crdb-1'',
          exec_event hc_sample ''crdb'' ''crdb-0'']
       = Some (None, [exec_event hc_sample ''crdb'' ''crdb-2'', exec_event hc_sample ''crdb'' ''crdb-1'',
                      exec_event hc_sample ''crdb'' ''crdb-0'',
                      exec_event hc_sample ''crdb'' ''crdb-2'', exec_event hc_sample ''crdb'' ''crdb-1'',
                      exec_event hc_sample ''crdb'' ''crdb-0''])
   \<and> Probe hc_sample ''x'' 2 []
       = Some (None, [exec_event hc_sample ''crdb'' ''crdb-2'', exec_event hc_sample ''crdb'' ''crdb-1'',
                      exec_event hc_sample ''crdb'' ''crdb-0'',
                      exec_event hc_sample ''crdb'' ''crdb-2'', exec_event hc_sample ''crdb'' ''crdb-1'',
                      exec_event hc_sample ''crdb'' ''crdb-0'',
                      Sleep (22 * Second),
                      exec_event hc_sample ''crdb'' ''crdb-2'', exec_event hc_sample ''crdb'' ''crdb-1'',
                      exec_event hc_sample ''crdb'' ''crdb-0''])
   \<and> map_option fst (Probe hc_evicted ''x'' 2 [])
       = Some (Some (Wrapf (Fundamental ''under replica is not zero for partition 2'')
                       ''replicas check probe failed for cluster x''))"
proof -
  let ?e = "[exec_event hc_sample ''crdb'' ''crdb-2'', exec_event hc_sample ''crdb'' ''crdb-1'',
             exec_event hc_sample ''crdb'' ''crdb-0'']"
  have g: "GetStatefulSet hc_sample [] (Namespace hc_sample) (StatefulSetName hc_sample) = Inr 3"
    by (simp add: sample_fields)
  have r: "WaitUntilStatefulSetIsReadyToServe hc_sample [] (Namespace hc_sample) (StatefulSetName hc_sample) 3 = None"
    by (simp add: sample_fields)
  have c: "checkUnderReplicatedMetricAllPods hc_sample ''x'' (StatefulSetName hc_sample) (Namespace hc_sample) 3 []
       = (None, ?e)"
    by (simp add: sample_fields sweep_sample)
  have n: "\<not> isCurlNotFoundErr None" by simp
  have w: "waitUntilUnderReplicatedMetricIsZero hc_sample ''x'' ''crdb'' ''ns'' 3 v = Some (None, v @ ?e)" for v
    using waitUntil_converged [of hc_sample "''x''" "''crdb''" "''ns''" 3 v] sweep_sample [of "''x''" "''ns''" v]
    by simp
  have w1: "waitUntilUnderReplicatedMetricIsZero hc_sample ''x'' (StatefulSetName hc_sample) (Namespace hc_sample) 3 ?e
       = Some (None, ?e @ ?e)"
    by (simp add: sample_fields w)
  have p1: "Probe hc_sample ''x'' 2 [] = Some (None, ?e @ ?e @ [Sleep (22 * Second)] @ ?e)"
    using Probe_second_check [OF g r c n w1, of 2] by (simp add: sample_fields w)
  let ?f = "[exec_event hc_evicted ''crdb'' ''crdb-2'', exec_event hc_evicted ''crdb'' ''crdb-1'',
             exec_event hc_evicted ''crdb'' ''crdb-0'']"
  have g': "GetStatefulSet hc_evicted [] (Namespace hc_evicted) (StatefulSetName hc_evicted) = Inr 3"
    by (simp add: sample_fields)
  have r': "WaitUntilStatefulSetIsReadyToServe hc_evicted [] (Namespace hc_evicted) (StatefulSetName hc_evicted) 3 = None"
    by (simp add: sample_fields)
  have nf: "Sleep (22 * Second) \<notin> set ?f" by (simp add: exec_event_def)
  have c': "checkUnderReplicatedMetricAllPods hc_evicted ''x'' (StatefulSetName hc_evicted) (Namespace hc_evicted) 3 []
       = (None, ?f)"
    using sweep_evicted_before [of "[]" "''x''" "''ns''"] by (simp add: sample_fields)
  have w1': "waitUntilUnderReplicatedMetricIsZero hc_evicted ''x'' (StatefulSetName hc_evicted) (Namespace hc_evicted) 3 ?f
       = Some (None, ?f @ ?f)"
    using waitUntil_converged [of hc_evicted "''x''" "''crdb''" "''ns''" 3 ?f]
      sweep_evicted_before [OF nf, of "''x''" "''ns''"]
    by (simp add: sample_fields)
  obtain v evs where v: "v = ((?f @ ?f) @ [Sleep (22 * Second)]) @ evs"
    and res: "waitUntilUnderReplicatedMetricIsZero hc_evicted ''x'' ''crdb'' ''ns'' 3 ((?f @ ?f) @ [Sleep (22 * Second)])
         = Some (map_option (\<lambda>err. Wrapf err (''replicas check probe failed for cluster '' @ ''x''))
                   (fst (checkUnderReplicatedMetricAllPods hc_evicted ''x'' ''crdb'' ''ns'' 3 v)),
                 snd (checkUnderReplicatedMetricAllPods hc_evicted ''x'' ''crdb'' ''ns'' 3 v))"
    using waitUntil_last_sweep [of "(?f @ ?f) @ [Sleep (22 * Second)]" hc_evicted "''x''" "''crdb''" "''ns''" 3]
    by (elim exE conjE) (rule that)
  have "Sleep (22 * Second) \<in> set v" using v by simp
  then have "fst (checkUnderReplicatedMetricAllPods hc_evicted ''x'' ''crdb'' ''ns'' 3 v)
      = Some (Fundamental ''under replica is not zero for partition 2'')"
    by (simp add: sweep_evicted_after)
  with res have "map_option fst (waitUntilUnderReplicatedMetricIsZero hc_evicted ''x'' ''crdb'' ''ns'' 3
        ((?f @ ?f) @ [Sleep (22 * Second)]))
      = Some (Some (Wrapf (Fundamental ''under replica is not zero for partition 2'')
                       ''replicas check probe failed for cluster x''))"
    by simp
  then have p2: "map_option fst (Probe hc_evicted ''x'' 2 [])
       = Some (Some (Wrapf (Fundamental ''under replica is not zero for partition 2'')
                       ''replicas check probe failed for cluster x''))"
    using Probe_second_check [OF g' r' c' n w1', of 2] by (simp add: sample_fields)
  show ?thesis using g r c n w1 p1 p2 by simp
qed

text \<open>
  Claim C2 does not hold of the source. \<open>CurlNotFoundErr\<close> is recovered only when the sweep
  of the pre-check returns it. The test of line 103 comes after the return of line 100 and
  sees a nil error only, and the error that \<open>waitUntilUnderReplicatedMetricIsZero\<close>
  returns is wrapped by \<^verbatim>\<open>errors.Wrapf\<close>. In the stateful set \<open>hc_settling\<close> the pod of
  replica 2 has under-replicated ranges at the pre-check and none afterwards, and the pod
  of replica 1 has no curl: the pre-check stops at replica 2, the polled check meets the
  missing curl at replica 1 in every sweep, and \<open>Probe\<close> returns the wrapped
  \<open>CurlNotFoundErr\<close> to its caller.
\<close>

theorem Probe_surfaces_curl_not_found:
  "map_option fst (Probe hc_settling ''x'' 2 [])
     = Some (Some (Wrapf (CurlNotFoundErr (Fundamental (exec_failed ''crdb-1'' curlnotfounderr)))
                     ''replicas check probe failed for cluster x''))"
proof -
  let ?w1 = "[exec_event hc_settling ''crdb'' ''crdb-2'']"
  have g: "GetStatefulSet hc_settling [] (Namespace hc_settling) (StatefulSetName hc_settling) = Inr 3"
    by (simp add: sample_fields)
  have r: "WaitUntilStatefulSetIsReadyToServe hc_settling [] (Namespace hc_settling) (StatefulSetName hc_settling) 3 = None"
    by (simp add: sample_fields)
  have c: "checkUnderReplicatedMetricAllPods hc_settling ''x'' (StatefulSetName hc_settling) (Namespace hc_settling) 3 []
       = (Some (Fundamental ''under replica is not zero for partition 2''), ?w1)"
    by (simp add: sample_fields sweep_settling_first)
  obtain v evs where v: "v = ?w1 @ evs"
    and res: "waitUntilUnderReplicatedMetricIsZero hc_settling ''x'' ''crdb'' ''ns'' 3 ?w1
         = Some (map_option (\<lambda>err. Wrapf err (''replicas check probe failed for cluster '' @ ''x''))
                   (fst (checkUnderReplicatedMetricAllPods hc_settling ''x'' ''crdb'' ''ns'' 3 v)),
                 snd (checkUnderReplicatedMetricAllPods hc_settling ''x'' ''crdb'' ''ns'' 3 v))"
    using waitUntil_last_sweep [of ?w1 hc_settling "''x''" "''crdb''" "''ns''" 3]
    by (elim exE conjE) (rule that)
  have "v \<noteq> []" using v by simp
  then have "fst (checkUnderReplicatedMetricAllPods hc_settling ''x'' ''crdb'' ''ns'' 3 v)
      = Some (CurlNotFoundErr (Fundamental (exec_failed ''crdb-1'' curlnotfounderr)))"
    by (simp add: sweep_settling_later)
  with res have "waitUntilUnderReplicatedMetricIsZero hc_settling ''x'' ''crdb'' ''ns'' 3 ?w1
      = Some (Some (Wrapf (CurlNotFoundErr (Fundamental (exec_failed ''crdb-1'' curlnotfounderr)))
                       ''replicas check probe failed for cluster x''),
              snd (checkUnderReplicatedMetricAllPods hc_settling ''x'' ''crdb'' ''ns'' 3 v))"
    by simp
  then show ?thesis
    using Probe_unfold [OF g r c, of 2] by (simp add: sample_fields)
qed

end
